theory Spec2Isabelle
  imports Main "HOL-Library.Product_Lexorder" "HOL-Library.Multiset"
begin

section \<open>Values of the raw document\<close>

text \<open>
  The raw career document is a nested structure of YAML values. A dictionary keeps its
  insertion order, so it is an association list; its keys are strings. Python strings
  are modelled as lists of 8-bit characters (code points below 256).
\<close>

datatype pyval =
    PNone
  | PBool bool
  | PInt int
  | PStr string
  | PList "pyval list"
  | PDict "(string \<times> pyval) list"

subsection \<open>Localizer (\<open>tr\<close> in \<open>pdflatex.py\<close>)\<close>

text \<open>
  \<^verbatim>\<open>for _, val in v.items(): return val\<close> followed by \<^verbatim>\<open>return None\<close>: the first value
  of the dictionary in insertion order, \<open>None\<close> for the empty dictionary.
\<close>

fun first_value :: "(string \<times> pyval) list \<Rightarrow> pyval" where
  "first_value [] = PNone"
| "first_value ((_, val) # _) = val"

definition tr :: "string \<Rightarrow> pyval \<Rightarrow> pyval" where
  "tr lang v =
     (case v of
        PDict kvs \<Rightarrow>
          (case map_of kvs lang of
             Some x \<Rightarrow> x
           | None \<Rightarrow>
               (case map_of kvs ''en'' of
                  Some y \<Rightarrow> y
                | None \<Rightarrow> first_value kvs))
      | _ \<Rightarrow> v)"

section \<open>Temporal arithmetic\<close>

text \<open>
  A \<open>datetime.date\<close> is the triple (year, month, day); the lexicographic order of the
  triple is the order of dates.
\<close>

type_synonym date = "int \<times> int \<times> int"

definition year :: "date \<Rightarrow> int" where
  "year d = fst d"

definition month :: "date \<Rightarrow> int" where
  "month d = fst (snd d)"

definition day :: "date \<Rightarrow> int" where
  "day d = snd (snd d)"

text \<open>
  \<open>_months_between\<close>: a date object is always truthy, so \<^verbatim>\<open>not a or not b\<close> holds
  exactly when one of the two is \<open>None\<close>.
\<close>

definition months_between :: "date option \<Rightarrow> date option \<Rightarrow> int option" where
  "months_between a b =
     (case a of
        None \<Rightarrow> None
      | Some x \<Rightarrow>
          (case b of
             None \<Rightarrow> None
           | Some y \<Rightarrow>
               (let months = (year y - year x) * 12 + (month y - month x)
                in Some (max (months - (if day y < day x then 1 else 0)) 0))))"

section \<open>Strings, bytes and decoded text\<close>

text \<open>
  \<open>bytes\<close> values are lists of 8-bit characters. A \<open>str\<close> that comes out of decoding
  process output, and every error message, is a \<open>ustr\<close>: the list of its code points.
  Paths, patterns and file keys are \<open>string\<close>s; \<open>lit\<close> embeds them into \<open>ustr\<close>.
\<close>

type_synonym bytes = string

type_synonym ustr = "nat list"

definition lit :: "string \<Rightarrow> ustr" where
  "lit s = map of_char s"

definition startswith :: "'a list \<Rightarrow> 'a list \<Rightarrow> bool" where
  "startswith s p = (take (length p) s = p)"

text \<open>
  \<open>str.isspace\<close>, \<open>str.strip()\<close> and \<open>str.lower()\<close> on code points below 256, and the
  decimal digits (below 256 the only characters that \<open>\d\<close> matches and \<open>int\<close> reads are
  \<open>0\<close> to \<open>9\<close>).
\<close>

definition py_isspace :: "char \<Rightarrow> bool" where
  "py_isspace c = (of_char c \<in> {9, 10, 11, 12, 13, 28, 29, 30, 31, 32, 133, 160 :: nat})"

definition py_strip :: "string \<Rightarrow> string" where
  "py_strip s = rev (dropWhile py_isspace (rev (dropWhile py_isspace s)))"

definition py_lower_char :: "char \<Rightarrow> char" where
  "py_lower_char c =
     (let n = (of_char c :: nat)
      in if (65 \<le> n \<and> n \<le> 90) \<or> (192 \<le> n \<and> n \<le> 222 \<and> n \<noteq> 215) then char_of (n + 32) else c)"

definition py_lower :: "string \<Rightarrow> string" where
  "py_lower s = map py_lower_char s"

definition is_digit :: "char \<Rightarrow> bool" where
  "is_digit c = (48 \<le> (of_char c :: nat) \<and> (of_char c :: nat) \<le> 57)"

definition digit_val :: "char \<Rightarrow> nat" where
  "digit_val c = of_char c - 48"

text \<open>\<open>str(n)\<close> for an integer: its decimal digits, with a minus sign when negative.\<close>

fun dec :: "nat \<Rightarrow> string" where
  "dec n = (if n < 10 then [char_of (48 + n)] else dec (n div 10) @ [char_of (48 + n mod 10)])"

declare dec.simps [simp del]

definition str_int :: "int \<Rightarrow> string" where
  "str_int i = (if i < 0 then CHR ''-'' # dec (nat (- i)) else dec (nat i))"

text \<open>
  \<open>str.splitlines()\<close>: the text is cut at every line boundary: line feed, carriage
  return (a carriage return and the line feed after it are one boundary), vertical tab,
  form feed, the separators 28, 29 and 30, next line (133), and the line and paragraph
  separators 8232 and 8233. A boundary at the very end opens no further line.
\<close>

definition is_linebreak :: "nat \<Rightarrow> bool" where
  "is_linebreak c = (c \<in> {10, 11, 12, 13, 28, 29, 30, 133, 8232, 8233})"

fun splitlines_from :: "ustr \<Rightarrow> ustr \<Rightarrow> ustr list" where
  "splitlines_from cur [] = (if cur = [] then [] else [rev cur])"
| "splitlines_from cur [c] =
     (if is_linebreak c then [rev cur] else [rev (c # cur)])"
| "splitlines_from cur (c # d # cs) =
     (if c = 13 \<and> d = 10 then rev cur # splitlines_from [] cs
      else if is_linebreak c then rev cur # splitlines_from [] (d # cs)
      else splitlines_from (c # cur) (d # cs))"

definition splitlines :: "ustr \<Rightarrow> ustr list" where
  "splitlines t = splitlines_from [] t"

text \<open>\<open>sep.join(xs)\<close>.\<close>

fun join :: "'a list \<Rightarrow> 'a list list \<Rightarrow> 'a list" where
  "join sep [] = []"
| "join sep [x] = x"
| "join sep (x # y # ys) = x @ sep @ join sep (y # ys)"

text \<open>\<open>xs[-60:]\<close>: the last sixty elements, all of them when there are fewer.\<close>

definition last60 :: "'a list \<Rightarrow> 'a list" where
  "last60 xs = drop (length xs - 60) xs"

subsection \<open>POSIX paths\<close>

definition os_path_join :: "string \<Rightarrow> string \<Rightarrow> string" where
  "os_path_join a b =
     (if startswith b ''/'' then b
      else if a = [] \<or> last a = CHR ''/'' then a @ b
      else a @ ''/'' @ b)"

definition os_path_isabs :: "string \<Rightarrow> bool" where
  "os_path_isabs p = startswith p ''/''"

definition os_path_basename :: "string \<Rightarrow> string" where
  "os_path_basename p = rev (takeWhile (\<lambda>c. c \<noteq> CHR ''/'') (rev p))"

section \<open>The sandbox runner (\<open>BaseRenderer.run_in_docker\<close>)\<close>

datatype py_error =
    RuntimeError ustr
  | FileNotFoundError ustr
  | IsADirectoryError string
  | UnicodeEncodeError
  | ValueError

subsection \<open>Materializing the input files\<close>

text \<open>
  The content of an input file is \<open>bytes\<close>, \<open>None\<close>, or any other object, given by
  the code points of its \<open>str()\<close>.
\<close>

datatype content = Bytes bytes | NoneContent | Str ustr

text \<open>UTF-8 of one code point; surrogates and values beyond U+10FFFF cannot be encoded.\<close>

definition utf8_char :: "nat \<Rightarrow> bytes option" where
  "utf8_char c =
     (if c < 128 then Some [char_of c]
      else if c < 2048 then Some [char_of (192 + c div 64), char_of (128 + c mod 64)]
      else if 55296 \<le> c \<and> c < 57344 then None
      else if c < 65536 then
        Some [char_of (224 + c div 4096), char_of (128 + c div 64 mod 64), char_of (128 + c mod 64)]
      else if c < 1114112 then
        Some [char_of (240 + c div 262144), char_of (128 + c div 4096 mod 64),
              char_of (128 + c div 64 mod 64), char_of (128 + c mod 64)]
      else None)"

fun utf8_encode :: "ustr \<Rightarrow> bytes option" where
  "utf8_encode [] = Some []"
| "utf8_encode (c # cs) =
     (case utf8_char c of
        None \<Rightarrow> None
      | Some bs \<Rightarrow> (case utf8_encode cs of None \<Rightarrow> None | Some rest \<Rightarrow> Some (bs @ rest)))"

definition content_bytes :: "content \<Rightarrow> py_error + bytes" where
  "content_bytes c =
     (case c of
        Bytes b \<Rightarrow> Inr b
      | NoneContent \<Rightarrow> Inr []
      | Str t \<Rightarrow> (case utf8_encode t of None \<Rightarrow> Inl UnicodeEncodeError | Some b \<Rightarrow> Inr b))"

text \<open>\<open>str(rel).lstrip('/').replace('\\', '/')\<close>.\<close>

definition normalize_rel :: "string \<Rightarrow> string" where
  "normalize_rel rel =
     map (\<lambda>c. if c = CHR 0x5C then CHR ''/'' else c) (dropWhile (\<lambda>c. c = CHR ''/'') rel)"

text \<open>
  One iteration of the loop over \<open>files\<close>: the host path the content is written to, and
  the bytes written. A host path whose last component is empty, \<open>.\<close> or \<open>..\<close> names a
  directory (\<open>os.makedirs\<close> has made the one before it), and \<open>open\<close> raises. Other
  failures of the operating system (a file where a directory is needed, permissions)
  are not modelled.
\<close>

definition materialize_one :: "string \<Rightarrow> string \<times> content \<Rightarrow> py_error + (string \<times> bytes)" where
  "materialize_one tmpdir kc =
     (let rel = normalize_rel (fst kc);
          host_path = os_path_join tmpdir rel
      in if os_path_basename host_path \<in> {[], ''.'', ''..''} then Inl (IsADirectoryError host_path)
         else (case content_bytes (snd kc) of
                 Inl e \<Rightarrow> Inl e
               | Inr b \<Rightarrow> Inr (host_path, b)))"

fun materialize :: "string \<Rightarrow> (string \<times> content) list \<Rightarrow> py_error + (string \<times> bytes) list" where
  "materialize tmpdir [] = Inr []"
| "materialize tmpdir (kc # rest) =
     (case materialize_one tmpdir kc of
        Inl e \<Rightarrow> Inl e
      | Inr w \<Rightarrow> (case materialize tmpdir rest of Inl e \<Rightarrow> Inl e | Inr ws \<Rightarrow> Inr (w # ws)))"

subsection \<open>The file system after the run, and the collection of outputs\<close>

text \<open>
  The file system of the host is a tree from the root directory; an absolute path in
  normal form is the list of its components (\<open>/a/b\<close> is \<open>[a, b]\<close>, the root is \<open>[]\<close>).
  The workspace is the directory at the path of \<open>tmpdir\<close>.
\<close>

datatype node = File bytes | Dir "(string \<times> node) list"

type_synonym path = "string list"

fun lookup :: "node \<Rightarrow> path \<Rightarrow> node option" where
  "lookup n [] = Some n"
| "lookup (File b) (c # cs) = None"
| "lookup (Dir es) (c # cs) = (case map_of es c of None \<Rightarrow> None | Some n \<Rightarrow> lookup n cs)"

text \<open>
  The components of an absolute path string, in normal form (\<open>os.path.normpath\<close>): empty
  components and \<open>.\<close> are dropped, \<open>..\<close> drops the component before it.
\<close>

definition split_slash :: "string \<Rightarrow> string list" where
  "split_slash s =
     foldr (\<lambda>c acc. if c = CHR ''/'' then [] # acc else (c # hd acc) # tl acc) s [[]]"

definition normal_components :: "string list \<Rightarrow> path" where
  "normal_components cs =
     fold (\<lambda>c acc. if c = [] \<or> c = ''.'' then acc
                    else if c = ''..'' then butlast acc
                    else acc @ [c]) cs []"

definition path_of :: "string \<Rightarrow> path" where
  "path_of s = normal_components (split_slash s)"

text \<open>
  \<open>os.path.relpath(p, start)\<close> on two absolute paths in normal form: one \<open>..\<close> for every
  component of \<open>start\<close> after the common prefix, then the rest of \<open>p\<close>; \<open>.\<close> when nothing
  is left. The result is the list of the components of the relative path.
\<close>

fun common_prefix_length :: "'a list \<Rightarrow> 'a list \<Rightarrow> nat" where
  "common_prefix_length (x # xs) (y # ys) =
     (if x = y then Suc (common_prefix_length xs ys) else 0)"
| "common_prefix_length _ _ = 0"

definition relpath :: "path \<Rightarrow> path \<Rightarrow> path" where
  "relpath p start =
     (let i = common_prefix_length start p;
          rel_list = replicate (length start - i) ''..'' @ drop i p
      in if rel_list = [] then [''.''] else rel_list)"

text \<open>
  \<open>os.walk(m)\<close>, top down: the files of a directory, then its subdirectories in turn.
  Each file comes with its path and its content.
\<close>

fun files_in :: "path \<Rightarrow> (string \<times> node) list \<Rightarrow> (path \<times> bytes) list" where
  "files_in p [] = []"
| "files_in p ((n, File b) # es) = (p @ [n], b) # files_in p es"
| "files_in p ((n, Dir ds) # es) = files_in p es"

fun walk :: "path \<Rightarrow> node \<Rightarrow> (path \<times> bytes) list"
  and walk_dirs :: "path \<Rightarrow> (string \<times> node) list \<Rightarrow> (path \<times> bytes) list" where
  "walk p (File b) = []"
| "walk p (Dir es) = files_in p es @ walk_dirs p es"
| "walk_dirs p [] = []"
| "walk_dirs p ((n, d) # es) = walk (p @ [n]) d @ walk_dirs p es"

text \<open>
  The names in one directory are distinct, and none is \<open>.\<close> or \<open>..\<close>, at every level of
  the tree.
\<close>

fun wf_node :: "node \<Rightarrow> bool"
  and wf_entries :: "(string \<times> node) list \<Rightarrow> bool" where
  "wf_node (File b) = True"
| "wf_node (Dir es) = (distinct (map fst es) \<and> wf_entries es)"
| "wf_entries [] = True"
| "wf_entries ((n, d) # es) = (n \<noteq> ''.'' \<and> n \<noteq> ''..'' \<and> wf_node d \<and> wf_entries es)"

text \<open>
  The pattern relative to the workspace: a pattern under \<open>/workspace/\<close> loses that
  prefix, any other absolute pattern is skipped (\<open>None\<close>).
\<close>

definition mount_dir :: string where
  "mount_dir = ''/workspace''"

definition rel_pattern_of :: "string \<Rightarrow> string option" where
  "rel_pattern_of pattern =
     (if startswith pattern (mount_dir @ ''/'') then Some (drop (length mount_dir + 1) pattern)
      else if startswith pattern ''/'' then None
      else Some pattern)"

text \<open>
  \<open>glob.glob(host_pattern, recursive=True)\<close> is a parameter \<open>glob\<close>: for the file system
  and the pattern on the host it gives the matches, each as its path in normal form.
  A match may lie outside the workspace. A match is read as a file unless it is a
  directory, so a match that does not exist raises. Every file goes into the result
  under its path relative to the workspace directory.
\<close>

definition collect_match ::
  "node \<Rightarrow> string \<Rightarrow> (path \<rightharpoonup> bytes) \<Rightarrow> path \<Rightarrow> py_error + (path \<rightharpoonup> bytes)" where
  "collect_match fs tmpdir collected m =
     (case lookup fs m of
        None \<Rightarrow> Inl (FileNotFoundError (lit (join ''/'' m)))
      | Some (Dir es) \<Rightarrow>
          Inr (fold (\<lambda>pb c. c(relpath (fst pb) (path_of tmpdir) \<mapsto> snd pb))
                 (walk m (Dir es)) collected)
      | Some (File b) \<Rightarrow> Inr (collected(relpath m (path_of tmpdir) \<mapsto> b)))"

fun collect_matches ::
  "node \<Rightarrow> string \<Rightarrow> (path \<rightharpoonup> bytes) \<Rightarrow> path list \<Rightarrow> py_error + (path \<rightharpoonup> bytes)" where
  "collect_matches fs tmpdir collected [] = Inr collected"
| "collect_matches fs tmpdir collected (m # ms) =
     (case collect_match fs tmpdir collected m of
        Inl e \<Rightarrow> Inl e
      | Inr c \<Rightarrow> collect_matches fs tmpdir c ms)"

definition collect_pattern ::
  "(node \<Rightarrow> string \<Rightarrow> path list) \<Rightarrow> node \<Rightarrow> string \<Rightarrow> (path \<rightharpoonup> bytes) \<Rightarrow> string
     \<Rightarrow> py_error + (path \<rightharpoonup> bytes)" where
  "collect_pattern glob fs tmpdir collected pattern =
     (case rel_pattern_of pattern of
        None \<Rightarrow> Inr collected
      | Some rel_pattern \<Rightarrow>
          (let host_pattern = os_path_join tmpdir rel_pattern
           in collect_matches fs tmpdir collected (glob fs host_pattern)))"

fun collect_outputs ::
  "(node \<Rightarrow> string \<Rightarrow> path list) \<Rightarrow> node \<Rightarrow> string \<Rightarrow> (path \<rightharpoonup> bytes) \<Rightarrow> string list
     \<Rightarrow> py_error + (path \<rightharpoonup> bytes)" where
  "collect_outputs glob fs tmpdir collected [] = Inr collected"
| "collect_outputs glob fs tmpdir collected (pattern # rest) =
     (case collect_pattern glob fs tmpdir collected pattern of
        Inl e \<Rightarrow> Inl e
      | Inr c \<Rightarrow> collect_outputs glob fs tmpdir c rest)"

subsection \<open>The whole call\<close>

text \<open>
  What the call finds outside the program: whether the Docker CLI is on the path, the
  absolute path of the Dockerfile and whether it exists, the outcome of the image
  build, the name of the temporary directory, and the container, which takes the
  materialized files to the outcome of the run and the file system it leaves behind.
  The image tag is a parameter as well.
\<close>

record proc =
  returncode :: int
  stdout :: ustr
  stderr :: ustr

record world =
  docker_on_path :: bool
  df_path :: ustr
  dockerfile_exists :: bool
  image_tag :: ustr
  build_proc :: proc
  tmpdir :: string
  container :: "(string \<times> bytes) list \<Rightarrow> proc \<times> node"

record run_result =
  rr_stdout :: ustr
  rr_stderr :: ustr
  rr_outputs :: "path \<rightharpoonup> bytes"
  rr_image :: ustr
  rr_returncode :: "int option"
  rr_build_stdout :: ustr
  rr_build_stderr :: ustr

definition failed_message :: "string \<Rightarrow> proc \<Rightarrow> ustr" where
  "failed_message what p =
     lit what @ lit '' failed (code '' @ lit (str_int (returncode p)) @ lit '').'' @ [10] @
     lit ''STDOUT:'' @ [10] @ stdout p @ [10] @ lit ''STDERR:'' @ [10] @ stderr p"

definition run_in_docker ::
  "(node \<Rightarrow> string \<Rightarrow> path list) \<Rightarrow> world \<Rightarrow> (string \<times> content) list \<Rightarrow> string list
     \<Rightarrow> py_error + run_result" where
  "run_in_docker glob w files outputs =
     (if \<not> docker_on_path w then
        Inl (RuntimeError (lit
          ''Docker CLI not found. Install Docker Desktop for Mac and ensure `docker` is on PATH.''))
      else if \<not> dockerfile_exists w then
        Inl (FileNotFoundError (lit ''Dockerfile not found: `'' @ df_path w @ lit ''`.''))
      else if returncode (build_proc w) \<noteq> 0 then
        Inl (RuntimeError (failed_message ''Docker build'' (build_proc w)))
      else
        (case materialize (tmpdir w) files of
           Inl e \<Rightarrow> Inl e
         | Inr written \<Rightarrow>
             (let (run_proc, fs) = container w written
              in if returncode run_proc \<noteq> 0 then
                   Inl (RuntimeError (failed_message ''Docker run'' run_proc))
                 else
                   (case collect_outputs glob fs (tmpdir w) Map.empty outputs of
                      Inl e \<Rightarrow> Inl e
                    | Inr collected \<Rightarrow>
                        Inr \<lparr> rr_stdout = stdout run_proc,
                              rr_stderr = stderr run_proc,
                              rr_outputs = collected,
                              rr_image = image_tag w,
                              rr_returncode = Some (returncode run_proc),
                              rr_build_stdout = stdout (build_proc w),
                              rr_build_stderr = stderr (build_proc w) \<rparr>))))"

section \<open>The artifact and log resolver (the end of \<open>Renderer.render\<close>)\<close>

text \<open>
  \<open>int(code_s.decode('utf-8').strip())\<close> is a parameter \<open>int_of_bytes\<close>: the integer
  the bytes parse to, \<open>None\<close> when decoding or parsing raises. The status file counts
  only when it is there and not empty: \<^verbatim>\<open>outputs_map.get('exit.code') or b'0'\<close>.
\<close>

definition resolve_exit_code :: "(bytes \<Rightarrow> int option) \<Rightarrow> run_result \<Rightarrow> int" where
  "resolve_exit_code int_of_bytes result =
     (let code_s = (case rr_outputs result [''exit.code''] of
                      None \<Rightarrow> ''0''
                    | Some b \<Rightarrow> if b = [] then ''0'' else b)
      in case int_of_bytes code_s of
           Some n \<Rightarrow> n
         | None \<Rightarrow> (case rr_returncode result of None \<Rightarrow> 0 | Some r \<Rightarrow> r))"

definition chosen_log :: "run_result \<Rightarrow> bytes" where
  "chosen_log result =
     (let log_bytes = (case rr_outputs result [''build.log''] of None \<Rightarrow> [] | Some b \<Rightarrow> b);
          mainlog_bytes = (case rr_outputs result [''main.log''] of None \<Rightarrow> [] | Some b \<Rightarrow> b)
      in if log_bytes \<noteq> [] then log_bytes else mainlog_bytes)"

text \<open>
  The tail that goes into the error message; \<open>decode\<close> is
  \<open>bytes.decode('utf-8', errors='ignore')\<close>, a parameter.
\<close>

definition log_tail :: "(bytes \<Rightarrow> ustr) \<Rightarrow> bytes \<Rightarrow> ustr" where
  "log_tail decode log =
     [10, 10] @ lit ''--- build.log (tail) ---'' @ [10] @
     join [10] (last60 (splitlines (decode log))) @ [10] @ lit ''--- end ---''"

text \<open>
  The end of \<open>render\<close>, from the result of the sandbox on: the compiled artifact that
  is persisted (path and content), if any, and the outcome. \<open>stem\<close> is the file name
  stem computed before the run. Writing the log file is left out.
\<close>

definition render_finish ::
  "(bytes \<Rightarrow> int option) \<Rightarrow> (bytes \<Rightarrow> ustr) \<Rightarrow> string \<Rightarrow> string \<Rightarrow> run_result
     \<Rightarrow> (string \<times> bytes) option \<times> (py_error + string)" where
  "render_finish int_of_bytes decode out_dir stem result =
     (let output_pdf = os_path_join out_dir (stem @ ''.pdf'');
          output_log = os_path_join out_dir (stem @ ''.log'');
          exit_code = resolve_exit_code int_of_bytes result;
          pdf_bytes = (case rr_outputs result [''main.pdf''] of
                         None \<Rightarrow> None
                       | Some b \<Rightarrow> if b = [] then None else Some b);
          persisted = map_option (\<lambda>b. (output_pdf, b)) pdf_bytes
      in if exit_code \<noteq> 0 \<or> pdf_bytes = None then
           (persisted,
            Inl (RuntimeError
              (lit ''pdflatex failed (exit '' @ lit (str_int exit_code) @ lit ''). See '' @
               lit (os_path_basename output_log) @ lit '' in '' @ lit out_dir @
               log_tail decode (chosen_log result))))
         else (persisted, Inr output_pdf))"

text \<open>
  \<open>render\<close> from the sandbox on: the four outputs it asks for, and the errors of the
  sandbox passed on as they are.
\<close>

definition render ::
  "(node \<Rightarrow> string \<Rightarrow> path list) \<Rightarrow> (bytes \<Rightarrow> int option) \<Rightarrow> (bytes \<Rightarrow> ustr) \<Rightarrow> world
     \<Rightarrow> string \<Rightarrow> string \<Rightarrow> (string \<times> content) list
     \<Rightarrow> (string \<times> bytes) option \<times> (py_error + string)" where
  "render glob int_of_bytes decode w out_dir stem files =
     (case run_in_docker glob w files [''main.pdf'', ''build.log'', ''main.log'', ''exit.code''] of
        Inl e \<Rightarrow> (None, Inl e)
      | Inr result \<Rightarrow> render_finish int_of_bytes decode out_dir stem result)"

subsection \<open>The library parameters on ASCII input\<close>

text \<open>
  Instances of the three library parameters, for evaluating the definitions on concrete
  input. \<open>int_of_ascii\<close> is \<open>int(b.decode('utf-8').strip())\<close> for bytes below 128: white
  space is stripped, then an optional sign and decimal digits follow, with single
  underscores allowed between digits. \<open>decode_ascii\<close> is the decoder on bytes below 128,
  where it is the identity. \<open>glob_name\<close> is \<open>glob\<close> for a pattern without wildcard
  characters: the path it names, when that exists.
\<close>

fun parse_digits :: "nat \<Rightarrow> string \<Rightarrow> nat option" where
  "parse_digits acc [] = None"
| "parse_digits acc [c] = (if is_digit c then Some (acc * 10 + digit_val c) else None)"
| "parse_digits acc (c # d # cs) =
     (if \<not> is_digit c then None
      else if d = CHR ''_'' then parse_digits (acc * 10 + digit_val c) cs
      else parse_digits (acc * 10 + digit_val c) (d # cs))"

definition int_of_ascii :: "bytes \<Rightarrow> int option" where
  "int_of_ascii b =
     (if \<exists>c \<in> set b. (of_char c :: nat) \<ge> 128 then None
      else (case py_strip b of
              [] \<Rightarrow> None
            | c # cs \<Rightarrow>
                if c = CHR ''-'' then map_option (\<lambda>n. - int n) (parse_digits 0 cs)
                else if c = CHR ''+'' then map_option int (parse_digits 0 cs)
                else map_option int (parse_digits 0 (c # cs))))"

definition decode_ascii :: "bytes \<Rightarrow> ustr" where
  "decode_ascii b = map of_char (filter (\<lambda>c. (of_char c :: nat) < 128) b)"

definition glob_name :: "node \<Rightarrow> string \<Rightarrow> path list" where
  "glob_name fs host_pattern =
     (case lookup fs (path_of host_pattern) of None \<Rightarrow> [] | Some n \<Rightarrow> [path_of host_pattern])"

subsection \<open>Notions for the properties of the collection\<close>

text \<open>
  What the specification says of the patterns: a pattern under \<open>/workspace/\<close> stands
  for the rest of it, a pattern that is not absolute stands for itself, and these are
  looked for in the workspace directory. The matches of a list of patterns are the
  matches of all of these.
\<close>

definition collectible :: "string \<Rightarrow> string \<Rightarrow> bool" where
  "collectible pattern rel_pattern =
     (pattern = ''/workspace/'' @ rel_pattern \<or>
      (pattern = rel_pattern \<and> take 1 pattern \<noteq> ''/''))"

definition matches ::
  "(node \<Rightarrow> string \<Rightarrow> path list) \<Rightarrow> node \<Rightarrow> string \<Rightarrow> string list \<Rightarrow> path set" where
  "matches glob fs tmp outputs =
     {m. \<exists>pattern \<in> set outputs. \<exists>rel_pattern.
           collectible pattern rel_pattern \<and> m \<in> set (glob fs (os_path_join tmp rel_pattern))}"

text \<open>
  A file is collected when it is a match or lies below a match; \<open>collected_as\<close> relates
  a key of the result to the content of a collected file with that relative path.
\<close>

definition collected_as :: "node \<Rightarrow> string \<Rightarrow> path set \<Rightarrow> path \<Rightarrow> bytes \<Rightarrow> bool" where
  "collected_as fs tmp ms key b =
     (\<exists>p. key = relpath p (path_of tmp) \<and> lookup fs p = Some (File b) \<and>
          (\<exists>m \<in> ms. \<exists>q. p = m @ q))"

text \<open>
  A workspace for the examples: a compiled file, and a directory with a subdirectory;
  and a host file system with this workspace at \<open>/tmp/cv-work-1\<close> and a file beside it.
\<close>

definition example_workspace :: node where
  "example_workspace =
     Dir [(''main.pdf'', File ''%PDF''),
          (''exit.code'', File ''0''),
          (''out'', Dir [(''a'', File ''x''), (''sub'', Dir [(''b'', File ''y'')])])]"

definition host_with :: "node \<Rightarrow> node" where
  "host_with workspace =
     Dir [(''tmp'', Dir [(''cv-work-1'', workspace), (''other'', File ''z'')])]"

text \<open>
  A world for the examples: Docker is there, the image builds, and the container exits
  with status zero and leaves the given workspace behind, at \<open>/tmp/cv-work-1\<close>.
\<close>

definition example_world :: "node \<Rightarrow> world" where
  "example_world fs =
     \<lparr> docker_on_path = True,
       df_path = lit ''/repo/Dockerfile'',
       dockerfile_exists = True,
       image_tag = lit ''cv:latest'',
       build_proc = \<lparr> returncode = 0, stdout = [], stderr = [] \<rparr>,
       tmpdir = ''/tmp/cv-work-1'',
       container = (\<lambda>written. (\<lparr> returncode = 0, stdout = [], stderr = [] \<rparr>, host_with fs)) \<rparr>"

section \<open>The intermediate document (\<open>Renderer.expand_intermediate\<close>)\<close>

text \<open>
  The strings of the raw document are \<open>string\<close>s (code points below 256). Of the raw
  document the model keeps the tables the aggregation reads: the skill registry, the
  skill groups, the projects and the employers; of the result it keeps the language,
  the annotated skill groups, the experience and the metrics. The other keys of the
  result (person, highlights, languages, education, classes, recommendations, labels,
  the plain lists) are computed from tables that the projects never enter.
\<close>

subsection \<open>Language and truth values\<close>

definition truthy :: "pyval \<Rightarrow> bool" where
  "truthy v =
     (case v of
        PNone \<Rightarrow> False
      | PBool b \<Rightarrow> b
      | PInt i \<Rightarrow> i \<noteq> 0
      | PStr s \<Rightarrow> s \<noteq> []
      | PList xs \<Rightarrow> xs \<noteq> []
      | PDict kvs \<Rightarrow> kvs \<noteq> [])"

definition str_truthy :: "string option \<Rightarrow> bool" where
  "str_truthy v = (case v of None \<Rightarrow> False | Some s \<Rightarrow> s \<noteq> [])"

definition is_lower_az :: "char \<Rightarrow> bool" where
  "is_lower_az c = (97 \<le> (of_char c :: nat) \<and> (of_char c :: nat) \<le> 122)"

text \<open>
  The strict two-letter language code: the first two characters of the stripped,
  lower-cased language when both are letters \<open>a\<close> to \<open>z\<close>, else \<open>en\<close>.
\<close>

definition resolve_lang :: "string option \<Rightarrow> string" where
  "resolve_lang language =
     (let raw_lang = (if str_truthy language then the language else ''en'');
          s = map (\<lambda>c. if c = CHR ''_'' then CHR ''-'' else c) (py_lower (py_strip raw_lang))
      in case s of
           a # b # _ \<Rightarrow> if is_lower_az a \<and> is_lower_az b then [a, b] else ''en''
         | _ \<Rightarrow> ''en'')"

subsection \<open>Dates as strings\<close>

definition is_leap :: "int \<Rightarrow> bool" where
  "is_leap y = (y mod 4 = 0 \<and> (y mod 400 = 0 \<or> y mod 100 \<noteq> 0))"

definition days_in_month :: "int \<Rightarrow> int \<Rightarrow> int" where
  "days_in_month y m =
     (if m \<in> {1, 3, 5, 7, 8, 10, 12} then 31
      else if m \<in> {4, 6, 9, 11} then 30
      else if is_leap y then 29 else 28)"

text \<open>The dates that \<open>datetime.date\<close> can hold.\<close>

definition valid_date :: "date \<Rightarrow> bool" where
  "valid_date d =
     (1 \<le> year d \<and> year d \<le> 9999 \<and> 1 \<le> month d \<and> month d \<le> 12 \<and>
      1 \<le> day d \<and> day d \<le> days_in_month (year d) (month d))"

text \<open>\<open>datetime.date(y, m, d)\<close>, with \<open>None\<close> for the \<open>ValueError\<close> that \<open>_parse_date\<close> catches.\<close>

definition mk_date :: "int \<Rightarrow> int \<Rightarrow> int \<Rightarrow> date option" where
  "mk_date y m d = (if valid_date (y, m, d) then Some (y, m, d) else None)"

text \<open>\<open>int(s)\<close> on a string of decimal digits.\<close>

definition digits_val :: "string \<Rightarrow> int" where
  "digits_val s = int (foldl (\<lambda>acc c. acc * 10 + digit_val c) 0 s)"

text \<open>The format specification \<open>0{w}d\<close>: zeros fill up to the width, after the sign.\<close>

definition fmt_d :: "nat \<Rightarrow> int \<Rightarrow> string" where
  "fmt_d w n =
     (if n < 0 then CHR ''-'' # replicate (w - 1 - length (dec (nat (- n)))) CHR ''0'' @ dec (nat (- n))
      else replicate (w - length (dec (nat n))) CHR ''0'' @ dec (nat n))"

definition fmt_ym :: "date \<Rightarrow> string" where
  "fmt_ym d = fmt_d 4 (year d) @ ''-'' @ fmt_d 2 (month d)"

text \<open>\<open>re.fullmatch('\d{4}-\d{2}', s)\<close> and \<open>re.fullmatch('\d{4}', s)\<close>.\<close>

fun re_ym :: "string \<Rightarrow> bool" where
  "re_ym [a, b, c, d, e, f, g] =
     (is_digit a \<and> is_digit b \<and> is_digit c \<and> is_digit d \<and> e = CHR ''-'' \<and>
      is_digit f \<and> is_digit g)"
| "re_ym _ = False"

fun re_y :: "string \<Rightarrow> bool" where
  "re_y [a, b, c, d] = (is_digit a \<and> is_digit b \<and> is_digit c \<and> is_digit d)"
| "re_y _ = False"

text \<open>
  \<open>_parse_date\<close>. \<open>datetime.date.fromisoformat\<close> is a parameter, \<open>None\<close> where it raises.
\<close>

definition parse_date :: "(string \<Rightarrow> date option) \<Rightarrow> string option \<Rightarrow> date option" where
  "parse_date fromisoformat v =
     (case v of
        None \<Rightarrow> None
      | Some raw \<Rightarrow>
          (let s = py_strip raw
           in if s = [] \<or> py_lower s \<in> {''now'', ''present'', ''current'', ''ongoing''} then None
              else if re_ym s then mk_date (digits_val (take 4 s)) (digits_val (drop 5 s)) 1
              else if re_y s then mk_date (digits_val s) 1 1
              else fromisoformat s))"

subsection \<open>Skills\<close>

record meta =
  m_name :: pyval
  m_level :: pyval

record skill_item =
  si_id :: string
  si_name :: pyval
  si_level :: pyval

text \<open>One element of \<open>_skill_items_from_ids\<close> (and of the items of a skill group).\<close>

definition skill_item_of :: "string \<Rightarrow> (string \<times> meta) list \<Rightarrow> string \<Rightarrow> skill_item" where
  "skill_item_of lang registry sid =
     (let meta = (case map_of registry sid of
                    None \<Rightarrow> \<lparr> m_name = PNone, m_level = PNone \<rparr>
                  | Some m \<Rightarrow> m)
      in \<lparr> si_id = sid,
           si_name = tr lang (if truthy (m_name meta) then m_name meta else PStr sid),
           si_level = m_level meta \<rparr>)"

subsection \<open>The loop over the projects\<close>

record project =
  p_employer :: "string option"
  p_start :: "string option"
  p_end :: "string option"
  p_name :: pyval
  p_skills :: "string list"

record project_entry =
  pe_name :: pyval
  pe_start :: "string option"
  pe_end :: "string option"
  pe_duration_months :: "int option"
  pe_skills :: "skill_item list"

record stat =
  st_months :: int
  st_first :: "date option"
  st_last :: "date option"

definition or_today :: "date \<Rightarrow> date option \<Rightarrow> date" where
  "or_today today d = (case d of None \<Rightarrow> today | Some x \<Rightarrow> x)"

definition project_entry_of ::
  "(string \<Rightarrow> date option) \<Rightarrow> date \<Rightarrow> string \<Rightarrow> (string \<times> meta) list \<Rightarrow> project \<Rightarrow> project_entry" where
  "project_entry_of fromisoformat today lang registry pr =
     (let ps = parse_date fromisoformat (p_start pr);
          pe_raw = parse_date fromisoformat (p_end pr);
          ongoing = (p_end pr \<in> {None, Some [], Some ''now'', Some ''present'', Some ''current'',
                                 Some ''ongoing''} \<or> pe_raw = None);
          pe_for_duration = or_today today pe_raw
      in \<lparr> pe_name = tr lang (p_name pr),
           pe_start = map_option fmt_ym ps,
           pe_end = (if ongoing then None else map_option fmt_ym pe_raw),
           pe_duration_months = months_between ps (Some pe_for_duration),
           pe_skills = map (skill_item_of lang registry) (p_skills pr) \<rparr>)"

text \<open>\<open>pr_months = _months_between(ps, pe_for_duration) or 0\<close>.\<close>

definition pr_months :: "(string \<Rightarrow> date option) \<Rightarrow> date \<Rightarrow> project \<Rightarrow> int" where
  "pr_months fromisoformat today pr =
     (case months_between (parse_date fromisoformat (p_start pr))
             (Some (or_today today (parse_date fromisoformat (p_end pr)))) of
        None \<Rightarrow> 0
      | Some n \<Rightarrow> n)"

text \<open>The body of the loop over the skills of one project, for one skill id.\<close>

definition update_stat :: "int \<Rightarrow> date option \<Rightarrow> date \<Rightarrow> stat \<Rightarrow> stat" where
  "update_stat months ps end_for_last st =
     \<lparr> st_months = st_months st + months,
       st_first = (case ps of
                     None \<Rightarrow> st_first st
                   | Some d \<Rightarrow>
                       (case st_first st of
                          None \<Rightarrow> Some d
                        | Some f \<Rightarrow> if d < f then Some d else Some f)),
       st_last = (case st_last st of
                    None \<Rightarrow> Some end_for_last
                  | Some l \<Rightarrow> if end_for_last > l then Some end_for_last else Some l) \<rparr>"

definition accumulate_skill ::
  "int \<Rightarrow> date option \<Rightarrow> date \<Rightarrow> string \<Rightarrow> (string \<rightharpoonup> stat) \<Rightarrow> (string \<rightharpoonup> stat)" where
  "accumulate_skill months ps end_for_last sid skill_stats =
     (let st = (case skill_stats sid of
                  None \<Rightarrow> \<lparr> st_months = 0, st_first = None, st_last = None \<rparr>
                | Some st \<Rightarrow> st)
      in skill_stats(sid \<mapsto> update_stat months ps end_for_last st))"

text \<open>
  One iteration of the loop over the projects: the state is \<open>by_employer\<close> and
  \<open>skill_stats\<close>.
\<close>

definition project_step ::
  "(string \<Rightarrow> date option) \<Rightarrow> date \<Rightarrow> string \<Rightarrow> (string \<times> meta) list \<Rightarrow> string list
     \<Rightarrow> string \<times> project
     \<Rightarrow> (string \<rightharpoonup> project_entry list) \<times> (string \<rightharpoonup> stat)
     \<Rightarrow> (string \<rightharpoonup> project_entry list) \<times> (string \<rightharpoonup> stat)" where
  "project_step fromisoformat today lang registry exclude_projects ppr state =
     (let pid = fst ppr; pr = snd ppr; by_employer = fst state; skill_stats = snd state
      in if pid \<in> set exclude_projects then state
         else if \<not> str_truthy (p_employer pr) then state
         else
           (let emp_key = the (p_employer pr);
                ps = parse_date fromisoformat (p_start pr);
                pe_raw = parse_date fromisoformat (p_end pr);
                entry = project_entry_of fromisoformat today lang registry pr;
                stats' = fold (accumulate_skill (pr_months fromisoformat today pr) ps
                                 (or_today today pe_raw)) (p_skills pr) skill_stats;
                projects = (case by_employer emp_key of None \<Rightarrow> [] | Some es \<Rightarrow> es)
            in (by_employer(emp_key \<mapsto> projects @ [entry]), stats')))"

definition projects_loop ::
  "(string \<Rightarrow> date option) \<Rightarrow> date \<Rightarrow> string \<Rightarrow> (string \<times> meta) list \<Rightarrow> string list
     \<Rightarrow> (string \<times> project) list
     \<Rightarrow> (string \<rightharpoonup> project_entry list) \<times> (string \<rightharpoonup> stat)" where
  "projects_loop fromisoformat today lang registry exclude_projects projects_raw =
     fold (project_step fromisoformat today lang registry exclude_projects) projects_raw
       (Map.empty, Map.empty)"

subsection \<open>Employers and experience\<close>

record employer =
  emp_name :: pyval

record experience_entry =
  x_employer :: pyval
  x_start :: "string option"
  x_end :: "string option"
  x_duration_months :: "int option"
  x_projects :: "project_entry list"

text \<open>\<open>[d for d in ds if d]\<close>, and \<open>min\<close> and \<open>max\<close> of a list (\<open>None\<close> on the empty list).\<close>

fun concrete :: "'a option list \<Rightarrow> 'a list" where
  "concrete [] = []"
| "concrete (None # ds) = concrete ds"
| "concrete (Some d # ds) = d # concrete ds"

fun list_min :: "'a::linorder list \<Rightarrow> 'a option" where
  "list_min [] = None"
| "list_min (x # xs) = Some (fold min xs x)"

fun list_max :: "'a::linorder list \<Rightarrow> 'a option" where
  "list_max [] = None"
| "list_max (x # xs) = Some (fold max xs x)"

text \<open>
  One iteration of the loop over the employers: no entry for an employer without
  projects. \<open>min\<close> raises a \<open>ValueError\<close> on an empty list, which is the case when
  there are start strings and none of them parses.
\<close>

definition employer_entry ::
  "(string \<Rightarrow> date option) \<Rightarrow> date \<Rightarrow> string \<Rightarrow> (string \<rightharpoonup> project_entry list)
     \<Rightarrow> string \<Rightarrow> employer \<Rightarrow> py_error + experience_entry option" where
  "employer_entry fromisoformat today lang by_employer ekey emp =
     (let projects = (case by_employer ekey of None \<Rightarrow> [] | Some es \<Rightarrow> es)
      in if projects = [] then Inr None
         else
           (let start_dates = map (\<lambda>p. parse_date fromisoformat (pe_start p))
                                (filter (\<lambda>p. str_truthy (pe_start p)) projects);
                end_dates_raw = map (\<lambda>p. parse_date fromisoformat (pe_end p))
                                  (filter (\<lambda>p. str_truthy (pe_end p)) projects);
                any_ongoing = (\<exists>p \<in> set projects. pe_end p \<in> {None, Some []})
            in if start_dates \<noteq> [] \<and> concrete start_dates = [] then Inl ValueError
               else
                 (let emp_start = (if start_dates = [] then None
                                   else list_min (concrete start_dates));
                      emp_end = (if any_ongoing \<or> end_dates_raw = [] then None
                                 else list_max (concrete end_dates_raw));
                      end_for_duration = or_today today emp_end
                  in Inr (Some \<lparr> x_employer = tr lang (emp_name emp),
                                   x_start = map_option fmt_ym emp_start,
                                   x_end = map_option fmt_ym emp_end,
                                   x_duration_months =
                                     months_between emp_start (Some end_for_duration),
                                   x_projects = projects \<rparr>))))"

fun experience_loop ::
  "(string \<Rightarrow> date option) \<Rightarrow> date \<Rightarrow> string \<Rightarrow> (string \<rightharpoonup> project_entry list)
     \<Rightarrow> (string \<times> employer) list \<Rightarrow> py_error + experience_entry list" where
  "experience_loop fromisoformat today lang by_employer [] = Inr []"
| "experience_loop fromisoformat today lang by_employer ((ekey, emp) # rest) =
     (case employer_entry fromisoformat today lang by_employer ekey emp of
        Inl e \<Rightarrow> Inl e
      | Inr None \<Rightarrow> experience_loop fromisoformat today lang by_employer rest
      | Inr (Some x) \<Rightarrow>
          (case experience_loop fromisoformat today lang by_employer rest of
             Inl e \<Rightarrow> Inl e
           | Inr xs \<Rightarrow> Inr (x # xs)))"

text \<open>
  \<open>_sort_key\<close>; \<open>list.sort\<close> is the stable sort by ascending key, and tuples compare
  lexicographically.
\<close>

definition sort_key_of ::
  "(string \<Rightarrow> date option) \<Rightarrow> date \<Rightarrow> experience_entry \<Rightarrow> int \<times> int \<times> int \<times> int" where
  "sort_key_of fromisoformat today e =
     (let end_d = or_today today (parse_date fromisoformat (x_end e));
          start_d = (case parse_date fromisoformat (x_start e) of None \<Rightarrow> end_d | Some d \<Rightarrow> d)
      in (- year end_d, - month end_d, - year start_d, - month start_d))"

subsection \<open>Skill groups and their annotation\<close>

record group_raw =
  g_id :: pyval
  g_name :: pyval
  g_items :: "string list"

record skill_usage =
  su_id :: string
  su_name :: pyval
  su_level :: pyval
  su_months :: int
  su_years_tenths :: int
  su_first_used :: "string option"
  su_last_used :: "string option"

record skill_group =
  sg_id :: pyval
  sg_group :: pyval
  sg_items :: "skill_usage list"

text \<open>
  Rounding to the nearest integer, ties to the even one: \<open>round(n / d)\<close> for integers
  \<open>n\<close> and \<open>d > 0\<close>. The floating point quotient of two small integers is a tie exactly
  when the rational quotient is one.
\<close>

definition round_half_even :: "int \<Rightarrow> int \<Rightarrow> int" where
  "round_half_even n d =
     (let q = n div d; r = n mod d
      in if 2 * r < d then q
         else if 2 * r > d then q + 1
         else if even q then q else q + 1)"

text \<open>
  \<open>years = round(months / 12.0, 1) if months else 0\<close>, kept in tenths of a year: the
  tenths are the quotient \<open>10 * months / 12\<close> rounded to the nearest integer.
\<close>

definition years_tenths :: "int \<Rightarrow> int" where
  "years_tenths months = (if months \<noteq> 0 then round_half_even (10 * months) 12 else 0)"

definition annotate :: "(string \<rightharpoonup> stat) \<Rightarrow> skill_item \<Rightarrow> skill_usage" where
  "annotate skill_stats it =
     (let st = skill_stats (si_id it);
          months = (case st of None \<Rightarrow> 0 | Some s \<Rightarrow> st_months s)
      in \<lparr> su_id = si_id it,
           su_name = si_name it,
           su_level = si_level it,
           su_months = months,
           su_years_tenths = years_tenths months,
           su_first_used = (case st of None \<Rightarrow> None | Some s \<Rightarrow> map_option fmt_ym (st_first s)),
           su_last_used = (case st of None \<Rightarrow> None | Some s \<Rightarrow> map_option fmt_ym (st_last s)) \<rparr>)"

definition skill_group_of ::
  "string \<Rightarrow> (string \<times> meta) list \<Rightarrow> (string \<rightharpoonup> stat) \<Rightarrow> group_raw \<Rightarrow> skill_group" where
  "skill_group_of lang registry skill_stats g =
     \<lparr> sg_id = g_id g,
       sg_group = tr lang (if truthy (g_name g) then g_name g else g_id g),
       sg_items = map (\<lambda>sid. annotate skill_stats (skill_item_of lang registry sid)) (g_items g) \<rparr>"

subsection \<open>Metrics\<close>

record metrics =
  experience_years :: int
  companies :: nat
  projects_total :: nat

text \<open>The scan of the experience: earliest start, latest end or today, number of projects.\<close>

definition metrics_step ::
  "(string \<Rightarrow> date option) \<Rightarrow> date \<Rightarrow> project_entry
     \<Rightarrow> date option \<times> date option \<times> nat \<Rightarrow> date option \<times> date option \<times> nat" where
  "metrics_step fromisoformat today p acc =
     (let earliest_start = fst acc; latest_end = fst (snd acc); total = snd (snd acc);
          ps = parse_date fromisoformat (pe_start p);
          pe_span = or_today today (parse_date fromisoformat (pe_end p))
      in ((case ps of
             None \<Rightarrow> earliest_start
           | Some d \<Rightarrow> (case earliest_start of
                          None \<Rightarrow> Some d
                        | Some e \<Rightarrow> if d < e then Some d else Some e)),
          (case latest_end of
             None \<Rightarrow> Some pe_span
           | Some l \<Rightarrow> if pe_span > l then Some pe_span else Some l),
          total + 1))"

definition metrics_of ::
  "(string \<Rightarrow> date option) \<Rightarrow> date \<Rightarrow> experience_entry list \<Rightarrow> metrics" where
  "metrics_of fromisoformat today experience =
     (let acc = fold (metrics_step fromisoformat today) (concat (map x_projects experience))
                  (None, None, 0);
          months_total = (case months_between (fst acc) (fst (snd acc)) of None \<Rightarrow> 0 | Some n \<Rightarrow> n)
      in \<lparr> experience_years = max (round_half_even months_total 12) 0,
           companies = length experience,
           projects_total = snd (snd acc) \<rparr>)"

subsection \<open>The whole expansion\<close>

record raw_document =
  raw_registry :: "(string \<times> meta) list"
  raw_groups :: "group_raw list"
  raw_projects :: "(string \<times> project) list"
  raw_employers :: "(string \<times> employer) list"

record intermediate =
  i_lang :: string
  i_skills :: "skill_group list"
  i_experience :: "experience_entry list"
  i_metrics :: metrics

definition expand_intermediate ::
  "(string \<Rightarrow> date option) \<Rightarrow> date \<Rightarrow> string option \<Rightarrow> string list \<Rightarrow> raw_document
     \<Rightarrow> py_error + intermediate" where
  "expand_intermediate fromisoformat today language exclude_projects raw =
     (let lang = resolve_lang language;
          state = projects_loop fromisoformat today lang (raw_registry raw) exclude_projects
                    (raw_projects raw);
          by_employer = fst state;
          skill_stats = snd state
      in case experience_loop fromisoformat today lang by_employer (raw_employers raw) of
           Inl e \<Rightarrow> Inl e
         | Inr unsorted \<Rightarrow>
             (let experience = sort_key (sort_key_of fromisoformat today) unsorted
              in Inr \<lparr> i_lang = lang,
                       i_skills = map (skill_group_of lang (raw_registry raw) skill_stats)
                                    (raw_groups raw),
                       i_experience = experience,
                       i_metrics = metrics_of fromisoformat today experience \<rparr>))"

subsection \<open>Notions for the properties of the expansion\<close>

text \<open>
  A project is retained when its id is not excluded and it has a non-empty employer
  reference; \<open>refers\<close> says that a project references the employer key.
\<close>

definition retained :: "string list \<Rightarrow> string \<times> project \<Rightarrow> bool" where
  "retained exclude_projects ppr =
     (fst ppr \<notin> set exclude_projects \<and> str_truthy (p_employer (snd ppr)))"

definition refers :: "string \<Rightarrow> string \<times> project \<Rightarrow> bool" where
  "refers ekey ppr = (p_employer (snd ppr) = Some ekey)"

text \<open>
  The sort key in the words of the specification: today stands in for an absent end
  and for an absent start; the order is descending in this key.
\<close>

definition spec_sort_key ::
  "(string \<Rightarrow> date option) \<Rightarrow> date \<Rightarrow> experience_entry \<Rightarrow> int \<times> int \<times> int \<times> int" where
  "spec_sort_key fromisoformat today e =
     (let end_d = or_today today (parse_date fromisoformat (x_end e));
          start_d = or_today today (parse_date fromisoformat (x_start e))
      in (year end_d, month end_d, year start_d, month start_d))"

text \<open>The key the code sorts by, without the signs: descending in this key.\<close>

definition code_sort_key ::
  "(string \<Rightarrow> date option) \<Rightarrow> date \<Rightarrow> experience_entry \<Rightarrow> int \<times> int \<times> int \<times> int" where
  "code_sort_key fromisoformat today e =
     (let end_d = or_today today (parse_date fromisoformat (x_end e));
          start_d = (case parse_date fromisoformat (x_start e) of None \<Rightarrow> end_d | Some d \<Rightarrow> d)
      in (year end_d, month end_d, year start_d, month start_d))"

text \<open>
  \<open>date.fromisoformat\<close> on the form \<open>YYYY-MM-DD\<close>, for the examples.
\<close>

fun fromisoformat_ymd :: "string \<Rightarrow> date option" where
  "fromisoformat_ymd [a, b, c, d, e, f, g, h, i, j] =
     (if is_digit a \<and> is_digit b \<and> is_digit c \<and> is_digit d \<and> e = CHR ''-'' \<and>
         is_digit f \<and> is_digit g \<and> h = CHR ''-'' \<and> is_digit i \<and> is_digit j
      then mk_date (digits_val [a, b, c, d]) (digits_val [f, g]) (digits_val [i, j])
      else None)"
| "fromisoformat_ymd _ = None"

text \<open>
  The projects listed under an employer key (\<open>by_employer.get(ekey, [])\<close>), the
  smallest and the largest element of a finite set of dates (none for the empty set),
  and the update of one skill's statistics seen on the optional entry of the table.
\<close>

definition entries_for :: "(string \<rightharpoonup> project_entry list) \<Rightarrow> string \<Rightarrow> project_entry list" where
  "entries_for by_employer ekey = (case by_employer ekey of None \<Rightarrow> [] | Some es \<Rightarrow> es)"

definition min_of :: "date set \<Rightarrow> date option" where
  "min_of A = (if A = {} then None else Some (Min A))"

definition max_of :: "date set \<Rightarrow> date option" where
  "max_of A = (if A = {} then None else Some (Max A))"

definition stat_step :: "int \<Rightarrow> date option \<Rightarrow> date \<Rightarrow> stat option \<Rightarrow> stat option" where
  "stat_step months ps end_for_last st =
     Some (update_stat months ps end_for_last
             (case st of
                None \<Rightarrow> \<lparr> st_months = 0, st_first = None, st_last = None \<rparr>
              | Some s \<Rightarrow> s))"

text \<open>
  The retained projects that list the skill id, the concrete starts among them, and
  their ends with today for an unbounded end.
\<close>

definition users_of :: "string list \<Rightarrow> string \<Rightarrow> (string \<times> project) list \<Rightarrow> (string \<times> project) list" where
  "users_of exclude_projects sid projects_raw =
     filter (\<lambda>ppr. retained exclude_projects ppr \<and> sid \<in> set (p_skills (snd ppr))) projects_raw"

definition starts_of :: "(string \<Rightarrow> date option) \<Rightarrow> (string \<times> project) list \<Rightarrow> date set" where
  "starts_of fromisoformat prs =
     {d. \<exists>ppr \<in> set prs. parse_date fromisoformat (p_start (snd ppr)) = Some d}"

definition ends_of :: "(string \<Rightarrow> date option) \<Rightarrow> date \<Rightarrow> (string \<times> project) list \<Rightarrow> date set" where
  "ends_of fromisoformat today prs =
     (\<lambda>ppr. or_today today (parse_date fromisoformat (p_end (snd ppr)))) ` set prs"

definition months_of :: "stat option \<Rightarrow> int" where
  "months_of st = (case st of None \<Rightarrow> 0 | Some s \<Rightarrow> st_months s)"

definition first_of :: "stat option \<Rightarrow> date option" where
  "first_of st = (case st of None \<Rightarrow> None | Some s \<Rightarrow> st_first s)"

definition last_of :: "stat option \<Rightarrow> date option" where
  "last_of st = (case st of None \<Rightarrow> None | Some s \<Rightarrow> st_last s)"

text \<open>
  \<open>fromisoformat\<close> returns dates that \<open>datetime.date\<close> can hold; the first day of the
  month of a date, which is what is left of a date once it is formatted and parsed.
\<close>

definition valid_fromisoformat :: "(string \<Rightarrow> date option) \<Rightarrow> bool" where
  "valid_fromisoformat fromisoformat =
     (\<forall>s. case fromisoformat s of None \<Rightarrow> True | Some d \<Rightarrow> valid_date d)"

definition month_start :: "date \<Rightarrow> date" where
  "month_start d = (year d, month d, 1)"

text \<open>
  The entry of one employer, none when the employer has no projects, and the list of
  the entries in the order of the employers table, before the sort.
\<close>

definition entry_option ::
  "(string \<Rightarrow> date option) \<Rightarrow> date \<Rightarrow> string \<Rightarrow> (string \<rightharpoonup> project_entry list)
     \<Rightarrow> string \<times> employer \<Rightarrow> experience_entry option" where
  "entry_option fromisoformat today lang by_employer kemp =
     (case employer_entry fromisoformat today lang by_employer (fst kemp) (snd kemp) of
        Inl e \<Rightarrow> None
      | Inr r \<Rightarrow> r)"

definition unsorted_experience ::
  "(string \<Rightarrow> date option) \<Rightarrow> date \<Rightarrow> string option \<Rightarrow> string list \<Rightarrow> raw_document
     \<Rightarrow> experience_entry list" where
  "unsorted_experience fromisoformat today language exclude_projects raw =
     concrete (map (entry_option fromisoformat today (resolve_lang language)
                      (fst (projects_loop fromisoformat today (resolve_lang language)
                              (raw_registry raw) exclude_projects (raw_projects raw))))
                 (raw_employers raw))"

text \<open>
  A document for the examples: employer \<open>a\<close> with three projects, one of them ongoing, a
  project without employer, and an employer \<open>z\<close> without projects; one skill group.
\<close>

definition example_project ::
  "string option \<Rightarrow> string option \<Rightarrow> string option \<Rightarrow> string list \<Rightarrow> project" where
  "example_project e s t skills =
     \<lparr> p_employer = e, p_start = s, p_end = t, p_name = PStr ''P'', p_skills = skills \<rparr>"

definition example_document :: raw_document where
  "example_document =
     \<lparr> raw_registry = [],
       raw_groups = [\<lparr> g_id = PStr ''g'', g_name = PNone, g_items = [''s''] \<rparr>],
       raw_projects =
         [(''p1'', example_project (Some ''a'') (Some ''2020-01'') (Some ''2020-07'') [''s'']),
          (''p2'', example_project (Some ''a'') (Some ''2021-01'') (Some ''2021-05'') [''s'', ''t'']),
          (''p3'', example_project (Some ''a'') (Some ''2019-01'') (Some ''now'') [''s'']),
          (''p4'', example_project None (Some ''2018-01'') (Some ''2018-03'') [''s''])],
       raw_employers = [(''a'', \<lparr> emp_name = PStr ''A'' \<rparr>), (''z'', \<lparr> emp_name = PStr ''Z'' \<rparr>)] \<rparr>"

section \<open>Properties\<close>

text \<open>
  C3. Localization of a value \<open>v\<close> against the resolved language code \<open>L\<close>: a mapping
  that has key \<open>L\<close> gives the value stored under \<open>L\<close>; otherwise one that has key
  \<open>en\<close> gives the value stored under \<open>en\<close>; otherwise a non-empty mapping gives its
  first value in insertion order and the empty mapping gives none; every scalar is
  returned unchanged. In particular \<open>{fr: X, en: Y}\<close> against \<open>ru\<close> is \<open>Y\<close> and
  \<open>{fr: X}\<close> against \<open>ru\<close> is \<open>X\<close>.
\<close>

theorem tr_contract:
  "tr L (PDict kvs) =
     (if L \<in> fst ` set kvs then the (map_of kvs L)
      else if ''en'' \<in> fst ` set kvs then the (map_of kvs ''en'')
      else if kvs \<noteq> [] then snd (hd kvs)
      else PNone) \<and>
   tr L PNone = PNone \<and>
   tr L (PBool b) = PBool b \<and>
   tr L (PInt i) = PInt i \<and>
   tr L (PStr s) = PStr s \<and>
   tr L (PList xs) = PList xs \<and>
   tr ''ru'' (PDict [(''fr'', X), (''en'', Y)]) = Y \<and>
   tr ''ru'' (PDict [(''fr'', X)]) = X"
proof -
  have none_iff: "map_of kvs k = None \<longleftrightarrow> k \<notin> fst ` set kvs" for k
    by (simp add: map_of_eq_None_iff)
  have dict: "tr L (PDict kvs) =
     (if L \<in> fst ` set kvs then the (map_of kvs L)
      else if ''en'' \<in> fst ` set kvs then the (map_of kvs ''en'')
      else if kvs \<noteq> [] then snd (hd kvs)
      else PNone)"
  proof (cases "map_of kvs L")
    case (Some x)
    then have "L \<in> fst ` set kvs" using none_iff [of L] by simp
    with Some show ?thesis by (simp add: tr_def)
  next
    case None
    then have nl: "L \<notin> fst ` set kvs" using none_iff [of L] by simp
    show ?thesis
    proof (cases "map_of kvs ''en''")
      case (Some y)
      then have "''en'' \<in> fst ` set kvs" using none_iff [of "''en''"] by simp
      with Some None nl show ?thesis by (simp add: tr_def)
    next
      case en: None
      then have ne: "''en'' \<notin> fst ` set kvs" using none_iff [of "''en''"] by simp
      show ?thesis
      proof (cases kvs)
        case Nil
        then show ?thesis by (simp add: tr_def)
      next
        case (Cons kv rest)
        obtain k val where kv: "kv = (k, val)" by (cases kv)
        from None en nl ne have "tr L (PDict kvs) = first_value kvs"
          by (simp add: tr_def)
        with Cons kv nl ne show ?thesis by simp
      qed
    qed
  qed
  have rest: "tr L PNone = PNone \<and> tr L (PBool b) = PBool b \<and> tr L (PInt i) = PInt i \<and>
      tr L (PStr s) = PStr s \<and> tr L (PList xs) = PList xs \<and>
      tr ''ru'' (PDict [(''fr'', X), (''en'', Y)]) = Y \<and>
      tr ''ru'' (PDict [(''fr'', X)]) = X"
    by (simp add: tr_def)
  from dict rest show ?thesis by blast
qed

text \<open>
  C4. \<open>months_between\<close> is none as soon as one bound is unbounded; for two concrete
  dates it is \<open>(b.year - a.year) * 12 + (b.month - a.month)\<close>, minus one when
  \<open>b.day < a.day\<close>, floored at zero. So the result for concrete dates is never
  negative (in particular for \<open>a \<le> b\<close>), and it is zero for \<open>a = b\<close>.
\<close>

theorem months_between_contract:
  "months_between None b' = None \<and>
   months_between a' None = None \<and>
   months_between (Some a) (Some b) =
     Some (max ((year b - year a) * 12 + (month b - month a)
                 - (if day b < day a then 1 else 0)) 0) \<and>
   (\<exists>n. months_between (Some a) (Some b) = Some n \<and> 0 \<le> n) \<and>
   months_between (Some a) (Some a) = Some 0"
  by (simp add: months_between_def Let_def split: option.splits)

subsection \<open>Materializing the input files\<close>

lemma startswith_append: "startswith (p @ s) p"
  by (simp add: startswith_def)

lemma materialize_one_inside:
  assumes "\<not> startswith (normalize_rel k) ''/''"
    and "os_path_basename (os_path_join tmp (normalize_rel k)) \<notin> {[], ''.'', ''..''}"
    and "content_bytes c = Inr b"
  shows "\<exists>host_path. materialize_one tmp (k, c) = Inr (host_path, b) \<and>
           startswith host_path tmp \<and>
           (host_path = tmp @ normalize_rel k \<or> host_path = tmp @ ''/'' @ normalize_rel k)"
  using assms
  by (auto simp: materialize_one_def os_path_join_def Let_def startswith_append)

lemma materialize_example:
  "materialize ''/tmp/cv-work-1'' [(''/a/b'', Bytes ''x''), (''c'', NoneContent), (''d'', Str (lit ''hi''))] =
     Inr [(''/tmp/cv-work-1/a/b'', ''x''), (''/tmp/cv-work-1/c'', []), (''/tmp/cv-work-1/d'', ''hi'')]"
  by code_simp

text \<open>
  C10. Every key of \<open>files\<close> is written at its normalized path inside the workspace.
  The code strips the leading \<open>/\<close> characters before it replaces the backslashes, so a
  key that begins with a backslash is normalized to an absolute path, and
  \<open>os.path.join\<close> drops the temporary directory: the key \<open>\a.sty\<close> is written at
  \<open>/a.sty\<close> on the host, outside the workspace \<open>/tmp/cv-work-1\<close>.
\<close>

theorem materialize_backslash_key:
  "materialize ''/tmp/cv-work-1'' [(CHR 0x5C # ''a.sty'', Bytes ''x'')] = Inr [(''/a.sty'', ''x'')] \<and>
   \<not> startswith ''/a.sty'' ''/tmp/cv-work-1''"
  by (simp add: materialize_one_def normalize_rel_def os_path_join_def startswith_def
      os_path_basename_def content_bytes_def Let_def)

subsection \<open>The exit status and the outcome of \<open>render\<close>\<close>

lemma run_in_docker_returncode:
  "run_in_docker glob w files outputs = Inr r \<Longrightarrow> rr_returncode r = Some 0"
  by (auto simp: run_in_docker_def Let_def split: if_splits sum.splits prod.splits)

text \<open>
  What \<open>resolve_exit_code\<close> computes, for every result and every parser: the status
  file counts when it is there and not empty; then its integer is the status, and the
  return code (zero when there is none) stands in when it does not parse. An absent or
  empty status file is read as the literal \<open>0\<close>.
\<close>

lemma resolve_exit_code_cases:
  "resolve_exit_code int_of_bytes result =
     (let returncode_or_zero = (case rr_returncode result of None \<Rightarrow> 0 | Some c \<Rightarrow> c);
          literal_zero = (case int_of_bytes ''0'' of None \<Rightarrow> returncode_or_zero | Some n \<Rightarrow> n)
      in case rr_outputs result [''exit.code''] of
           None \<Rightarrow> literal_zero
         | Some b \<Rightarrow>
             if b = [] then literal_zero
             else (case int_of_bytes b of None \<Rightarrow> returncode_or_zero | Some n \<Rightarrow> n))"
  by (simp add: resolve_exit_code_def Let_def split: option.splits)


lemma isabs_join: "os_path_isabs (os_path_join a b) = (os_path_isabs a \<or> os_path_isabs b)"
  by (cases a; cases b) (auto simp: os_path_isabs_def os_path_join_def startswith_def)

text \<open>
  C2, as the code has it. Once the sandbox has returned a result, \<open>render\<close> succeeds
  exactly when the resolved exit status is zero and \<open>main.pdf\<close> was collected and is not
  empty; it then returns \<open>os.path.join(out_dir, stem + '.pdf')\<close>, the path the artifact
  was persisted at, which is absolute exactly when \<open>out_dir\<close> (or the stem) is. In every
  other case with a sandbox result it raises a \<open>RuntimeError\<close> whose message ends with
  the last sixty lines of the chosen log between the two marker lines. An error of the
  sandbox itself is passed on unchanged.
\<close>

theorem render_outcome:
  "render glob int_of_bytes decode w out_dir stem files =
     (case run_in_docker glob w files [''main.pdf'', ''build.log'', ''main.log'', ''exit.code''] of
        Inl e \<Rightarrow> (None, Inl e)
      | Inr result \<Rightarrow>
          (let output_pdf = os_path_join out_dir (stem @ ''.pdf'');
               exit_code = resolve_exit_code int_of_bytes result;
               pdf = rr_outputs result [''main.pdf'']
           in if exit_code = 0 \<and> (\<exists>b. pdf = Some b \<and> b \<noteq> [])
              then (Some (output_pdf, the pdf), Inr output_pdf)
              else (if \<exists>b. pdf = Some b \<and> b \<noteq> [] then Some (output_pdf, the pdf) else None,
                    Inl (RuntimeError
                      (lit ''pdflatex failed (exit '' @ lit (str_int exit_code) @ lit ''). See '' @
                       lit (os_path_basename (os_path_join out_dir (stem @ ''.log''))) @
                       lit '' in '' @ lit out_dir @
                       [10, 10] @ lit ''--- build.log (tail) ---'' @ [10] @
                       join [10] (last60 (splitlines (decode (chosen_log result)))) @
                       [10] @ lit ''--- end ---''))))) \<and>
   os_path_isabs (os_path_join out_dir (stem @ ''.pdf'')) =
     (os_path_isabs out_dir \<or> os_path_isabs stem)"
proof -
  have abs: "os_path_isabs (os_path_join out_dir (stem @ ''.pdf'')) =
     (os_path_isabs out_dir \<or> os_path_isabs stem)"
    by (cases stem) (simp_all add: isabs_join, simp_all add: os_path_isabs_def startswith_def)
  have fin: "render_finish int_of_bytes decode out_dir stem result =
          (let output_pdf = os_path_join out_dir (stem @ ''.pdf'');
               exit_code = resolve_exit_code int_of_bytes result;
               pdf = rr_outputs result [''main.pdf'']
           in if exit_code = 0 \<and> (\<exists>b. pdf = Some b \<and> b \<noteq> [])
              then (Some (output_pdf, the pdf), Inr output_pdf)
              else (if \<exists>b. pdf = Some b \<and> b \<noteq> [] then Some (output_pdf, the pdf) else None,
                    Inl (RuntimeError
                      (lit ''pdflatex failed (exit '' @ lit (str_int exit_code) @ lit ''). See '' @
                       lit (os_path_basename (os_path_join out_dir (stem @ ''.log''))) @
                       lit '' in '' @ lit out_dir @
                       [10, 10] @ lit ''--- build.log (tail) ---'' @ [10] @
                       join [10] (last60 (splitlines (decode (chosen_log result)))) @
                       [10] @ lit ''--- end ---''))))" for result
    by (cases "rr_outputs result [''main.pdf'']")
       (simp_all add: render_finish_def log_tail_def Let_def)
  show ?thesis
    unfolding render_def using abs
    by (simp add: fin split: sum.splits)
qed

text \<open>The example run, evaluated step by step.\<close>

lemma example_patterns:
  "rel_pattern_of ''main.pdf'' = Some ''main.pdf''"
  "rel_pattern_of ''build.log'' = Some ''build.log''"
  "rel_pattern_of ''main.log'' = Some ''main.log''"
  "rel_pattern_of ''exit.code'' = Some ''exit.code''"
  "os_path_join ''/tmp/cv-work-1'' ''main.pdf'' = ''/tmp/cv-work-1/main.pdf''"
  "os_path_join ''/tmp/cv-work-1'' ''build.log'' = ''/tmp/cv-work-1/build.log''"
  "os_path_join ''/tmp/cv-work-1'' ''main.log'' = ''/tmp/cv-work-1/main.log''"
  "os_path_join ''/tmp/cv-work-1'' ''exit.code'' = ''/tmp/cv-work-1/exit.code''"
  by code_simp+

lemma example_globs:
  "glob_name (host_with example_workspace) ''/tmp/cv-work-1/main.pdf'' =
     [[''tmp'', ''cv-work-1'', ''main.pdf'']]"
  "glob_name (host_with example_workspace) ''/tmp/cv-work-1/build.log'' = []"
  "glob_name (host_with example_workspace) ''/tmp/cv-work-1/main.log'' = []"
  "glob_name (host_with example_workspace) ''/tmp/cv-work-1/exit.code'' =
     [[''tmp'', ''cv-work-1'', ''exit.code'']]"
  by code_simp+

lemma example_files:
  "lookup (host_with example_workspace) [''tmp'', ''cv-work-1'', ''main.pdf''] = Some (File ''%PDF'')"
  "lookup (host_with example_workspace) [''tmp'', ''cv-work-1'', ''exit.code''] = Some (File ''0'')"
  "relpath [''tmp'', ''cv-work-1'', ''main.pdf''] (path_of ''/tmp/cv-work-1'') = [''main.pdf'']"
  "relpath [''tmp'', ''cv-work-1'', ''exit.code''] (path_of ''/tmp/cv-work-1'') = [''exit.code'']"
  by code_simp+

lemma example_collect:
  "collect_outputs glob_name (host_with example_workspace) ''/tmp/cv-work-1'' Map.empty
     [''main.pdf'', ''build.log'', ''main.log'', ''exit.code''] =
   Inr [[''main.pdf''] \<mapsto> ''%PDF'', [''exit.code''] \<mapsto> ''0'']"
  by (simp add: collect_pattern_def collect_match_def example_patterns example_globs example_files)

lemma example_materialize:
  "materialize ''/tmp/cv-work-1'' [(''main.tex'', Str (lit ''x''))] =
     Inr [(''/tmp/cv-work-1/main.tex'', ''x'')]"
  by code_simp

lemma example_run:
  "run_in_docker glob_name (example_world example_workspace)
     [(''main.tex'', Str (lit ''x''))] [''main.pdf'', ''build.log'', ''main.log'', ''exit.code''] =
   Inr \<lparr> rr_stdout = [], rr_stderr = [],
         rr_outputs = [[''main.pdf''] \<mapsto> ''%PDF'', [''exit.code''] \<mapsto> ''0''],
         rr_image = lit ''cv:latest'', rr_returncode = Some 0,
         rr_build_stdout = [], rr_build_stderr = [] \<rparr>"
  by (simp add: run_in_docker_def example_world_def example_materialize example_collect Let_def
      del: materialize.simps collect_outputs.simps)

text \<open>
  C2 as stated fails: with the relative output directory \<open>out\<close> a successful \<open>render\<close>
  returns the relative path \<open>out/cv-en-2026-11-04.pdf\<close>.
\<close>

theorem render_relative_out_dir:
  "render glob_name int_of_ascii decode_ascii (example_world example_workspace)
     ''out'' ''cv-en-2026-11-04'' [(''main.tex'', Str (lit ''x''))] =
     (Some (''out/cv-en-2026-11-04.pdf'', ''%PDF''), Inr ''out/cv-en-2026-11-04.pdf'') \<and>
   \<not> os_path_isabs ''out/cv-en-2026-11-04.pdf''"
proof -
  note run = example_run
  have z: "int_of_ascii ''0'' = Some 0"
    by (simp add: int_of_ascii_def py_strip_def py_isspace_def is_digit_def digit_val_def)
  show ?thesis
    unfolding render_def run
    by (simp add: render_finish_def resolve_exit_code_def z Let_def os_path_join_def
        os_path_isabs_def startswith_def)
qed

subsection \<open>Formatting a date and parsing it back\<close>

lemma is_digit_char_of: "k < 10 \<Longrightarrow> is_digit (char_of (48 + k :: nat))"
  by (simp add: is_digit_def)

lemma digit_val_char_of: "k < 10 \<Longrightarrow> digit_val (char_of (48 + k :: nat)) = k"
  by (simp add: digit_val_def)

lemma dec_digits: "\<forall>c \<in> set (dec n). is_digit c"
proof (induction n rule: dec.induct)
  case (1 n)
  show ?case
  proof (cases "n < 10")
    case True
    then show ?thesis by (subst dec.simps) (simp add: is_digit_char_of)
  next
    case False
    then have "\<forall>c \<in> set (dec (n div 10)). is_digit c" using 1 by simp
    moreover have "is_digit (char_of (48 + n mod 10))" by (rule is_digit_char_of) simp
    ultimately show ?thesis using False by (subst dec.simps) simp
  qed
qed

lemma dec_nonempty: "dec n \<noteq> []"
  by (subst dec.simps) simp

lemma foldl_dec:
  "foldl (\<lambda>acc c. acc * 10 + digit_val c) a (dec n) = a * 10 ^ length (dec n) + n"
proof (induction n arbitrary: a rule: dec.induct)
  case (1 n)
  show ?case
  proof (cases "n < 10")
    case True
    then show ?thesis by (subst (1 2) dec.simps) (simp add: digit_val_char_of)
  next
    case False
    have dv: "digit_val (char_of (48 + n mod 10)) = n mod 10"
      by (rule digit_val_char_of) simp
    have "foldl (\<lambda>acc c. acc * 10 + digit_val c) a (dec n) =
          (a * 10 ^ length (dec (n div 10)) + n div 10) * 10 + n mod 10"
      using False 1 [OF False, of a] by (subst dec.simps) (simp add: dv)
    also have "\<dots> = a * 10 ^ (length (dec (n div 10)) + 1) + n"
      by (simp add: algebra_simps)
    also have "length (dec (n div 10)) + 1 = length (dec n)"
      using False by (subst (2) dec.simps) simp
    finally show ?thesis .
  qed
qed

lemma foldl_zeros:
  "foldl (\<lambda>acc c. acc * 10 + digit_val c) 0 (replicate k CHR ''0'') = 0"
  by (induction k) (simp_all add: digit_val_def)

lemma length_dec_le:
  "n < 10 ^ k \<Longrightarrow> 0 < k \<Longrightarrow> length (dec n) \<le> k"
proof (induction n arbitrary: k rule: dec.induct)
  case (1 n)
  show ?case
  proof (cases "n < 10")
    case True
    then show ?thesis using 1(3) by (subst dec.simps) simp
  next
    case False
    then obtain j where k: "k = Suc j" "0 < j"
      using 1(2,3) by (cases k; cases "k - 1") auto
    have "n div 10 < 10 ^ j" using 1(2) k by (simp add: less_mult_imp_div_less)
    then have "length (dec (n div 10)) \<le> j" using 1(1) [OF False _ k(2)] by simp
    then show ?thesis using False k by (subst dec.simps) simp
  qed
qed

lemma fmt_d_props:
  assumes "0 \<le> n" and "n < 10 ^ w" and "0 < w"
  shows "length (fmt_d w n) = w"
    and "\<forall>c \<in> set (fmt_d w n). is_digit c"
    and "digits_val (fmt_d w n) = n"
proof -
  have le: "length (dec (nat n)) \<le> w"
    using assms by (intro length_dec_le) (auto simp: nat_less_iff)
  show "length (fmt_d w n) = w" using assms(1) le by (simp add: fmt_d_def)
  show "\<forall>c \<in> set (fmt_d w n). is_digit c"
    using assms(1) dec_digits [of "nat n"] by (auto simp: fmt_d_def is_digit_def)
  show "digits_val (fmt_d w n) = n"
    using assms(1) by (simp add: fmt_d_def digits_val_def foldl_zeros foldl_dec)
qed

lemma digit_not_space: "is_digit c \<Longrightarrow> \<not> py_isspace c"
  by (auto simp: is_digit_def py_isspace_def)

lemma digit_lower: "is_digit c \<Longrightarrow> py_lower_char c = c"
  by (auto simp: is_digit_def py_lower_char_def Let_def)

lemma parse_fmt_ym:
  assumes "valid_date d"
  shows "parse_date fromiso (Some (fmt_ym d)) = Some (year d, month d, 1)"
proof -
  from assms have y: "0 \<le> year d" "year d < 10 ^ 4" and m: "0 \<le> month d" "month d < 10 ^ 2"
    and ym: "1 \<le> year d" "year d \<le> 9999" "1 \<le> month d" "month d \<le> 12"
    by (simp_all add: valid_date_def)
  note Y = fmt_d_props [OF y, simplified]
  note M = fmt_d_props [OF m, simplified]
  from Y(1) obtain a b c e where A: "fmt_d 4 (year d) = [a, b, c, e]"
    by (auto simp: length_Suc_conv numeral_eq_Suc)
  from M(1) obtain f g where B: "fmt_d 2 (month d) = [f, g]"
    by (auto simp: length_Suc_conv numeral_eq_Suc)
  have dig: "is_digit a" "is_digit b" "is_digit c" "is_digit e" "is_digit f" "is_digit g"
    using Y(2) M(2) A B by simp_all
  have s: "fmt_ym d = [a, b, c, e, CHR ''-'', f, g]"
    by (simp add: fmt_ym_def A B)
  have strip: "py_strip (fmt_ym d) = fmt_ym d"
    using dig by (simp add: s py_strip_def digit_not_space)
  have low: "py_lower (fmt_ym d) \<notin> {''now'', ''present'', ''current'', ''ongoing''}"
    using dig(1) by (auto simp: s py_lower_def digit_lower is_digit_def)
  have v: "valid_date (year d, month d, 1)"
    using ym by (simp add: valid_date_def year_def month_def day_def days_in_month_def)
  have dv: "digits_val [a, b, c, e] = year d" "digits_val [f, g] = month d"
    using Y(3) M(3) A B by simp_all
  show ?thesis
    using strip low dig v dv
    by (simp add: parse_date_def Let_def s mk_date_def)
qed

subsection \<open>The loop over the projects\<close>

lemma project_step_skip:
  "\<not> retained X ppr \<Longrightarrow> project_step F T L R X ppr state = state"
  by (auto simp: project_step_def retained_def Let_def)

lemma fold_project_step_filter:
  "fold (project_step F T L R X) prs state =
   fold (project_step F T L R X) (filter (retained X) prs) state"
  by (induction prs arbitrary: state) (simp_all add: project_step_skip)

lemma project_step_entries:
  "entries_for (fst (project_step F T L R X ppr state)) k =
     entries_for (fst state) k @
       (if retained X ppr \<and> refers k ppr then [project_entry_of F T L R (snd ppr)] else [])"
  by (auto simp: project_step_def retained_def refers_def entries_for_def Let_def str_truthy_def
      split: option.splits)

lemma fold_entries:
  "entries_for (fst (fold (project_step F T L R X) prs state)) k =
     entries_for (fst state) k @
       map (\<lambda>ppr. project_entry_of F T L R (snd ppr))
         (filter (\<lambda>ppr. retained X ppr \<and> refers k ppr) prs)"
proof (induction prs arbitrary: state)
  case Nil
  then show ?case by simp
next
  case (Cons ppr prs)
  show ?case
    using Cons [of "project_step F T L R X ppr state"]
    by (simp add: project_step_entries)
qed

lemma accumulate_skill_apply:
  "accumulate_skill m ps e x ss sid = (if x = sid then stat_step m ps e (ss sid) else ss sid)"
  by (simp add: accumulate_skill_def stat_step_def Let_def)

lemma fold_accumulate_skill:
  "fold (accumulate_skill m ps e) skills ss sid =
     (stat_step m ps e ^^ count_list skills sid) (ss sid)"
proof (induction skills arbitrary: ss)
  case Nil
  then show ?case by simp
next
  case (Cons x skills)
  show ?case
    using Cons [of "accumulate_skill m ps e x ss"]
    by (simp add: accumulate_skill_apply funpow_swap1)
qed

lemma project_step_stats:
  "snd (project_step F T L R X ppr state) sid =
     (if retained X ppr
      then (stat_step (pr_months F T (snd ppr)) (parse_date F (p_start (snd ppr)))
              (or_today T (parse_date F (p_end (snd ppr))))
            ^^ count_list (p_skills (snd ppr)) sid) (snd state sid)
      else snd state sid)"
  by (simp add: project_step_def retained_def Let_def fold_accumulate_skill)

subsection \<open>The statistics of one skill\<close>

lemma min_of_absorb:
  "finite A \<Longrightarrow> finite B \<Longrightarrow> min_of (set_option (min_of A) \<union> B) = min_of (A \<union> B)"
  by (cases "A = {}"; cases "B = {}") (auto simp: min_of_def Min_Un)

lemma max_of_absorb:
  "finite A \<Longrightarrow> finite B \<Longrightarrow> max_of (set_option (max_of A) \<union> B) = max_of (A \<union> B)"
  by (cases "A = {}"; cases "B = {}") (auto simp: max_of_def Max_Un)

lemma min_of_option [simp]: "min_of (set_option x) = x"
  by (cases x) (simp_all add: min_of_def)

lemma max_of_option [simp]: "max_of (set_option x) = x"
  by (cases x) (simp_all add: max_of_def)

lemma stat_step_months: "months_of (stat_step m ps e st) = months_of st + m"
  by (cases st) (simp_all add: stat_step_def update_stat_def months_of_def)

lemma stat_step_first:
  "first_of (stat_step m ps e st) = min_of (set_option (first_of st) \<union> set_option ps)"
  by (cases st; cases ps; cases "first_of st")
     (auto simp: stat_step_def update_stat_def first_of_def min_of_def min_def split: option.splits)

lemma stat_step_last:
  "last_of (stat_step m ps e st) = max_of (set_option (last_of st) \<union> {e})"
  by (cases st; cases "last_of st")
     (auto simp: stat_step_def update_stat_def last_of_def max_of_def max_def split: option.splits)

lemma stat_step_Some: "stat_step m ps e st \<noteq> None"
  by (simp add: stat_step_def)

lemma funpow_stat_step:
  "months_of ((stat_step m ps e ^^ n) st) = months_of st + int n * m"
  "first_of ((stat_step m ps e ^^ n) st) =
     (if n = 0 then first_of st else min_of (set_option (first_of st) \<union> set_option ps))"
  "last_of ((stat_step m ps e ^^ n) st) =
     (if n = 0 then last_of st else max_of (set_option (last_of st) \<union> {e}))"
  "(stat_step m ps e ^^ n) st = None \<longleftrightarrow> n = 0 \<and> st = None"
proof -
  show "months_of ((stat_step m ps e ^^ n) st) = months_of st + int n * m"
    by (induction n) (simp_all add: stat_step_months algebra_simps)
  show "first_of ((stat_step m ps e ^^ n) st) =
     (if n = 0 then first_of st else min_of (set_option (first_of st) \<union> set_option ps))"
  proof (induction n)
    case 0
    then show ?case by simp
  next
    case (Suc n)
    have "min_of (set_option (min_of (set_option (first_of st) \<union> set_option ps)) \<union> set_option ps)
        = min_of ((set_option (first_of st) \<union> set_option ps) \<union> set_option ps)"
      by (rule min_of_absorb) simp_all
    with Suc show ?case by (simp add: stat_step_first Un_assoc)
  qed
  show "last_of ((stat_step m ps e ^^ n) st) =
     (if n = 0 then last_of st else max_of (set_option (last_of st) \<union> {e}))"
  proof (induction n)
    case 0
    then show ?case by simp
  next
    case (Suc n)
    have "max_of (set_option (max_of (set_option (last_of st) \<union> {e})) \<union> {e})
        = max_of ((set_option (last_of st) \<union> {e}) \<union> {e})"
      by (rule max_of_absorb) simp_all
    with Suc show ?case by (simp add: stat_step_last Un_assoc)
  qed
  show "(stat_step m ps e ^^ n) st = None \<longleftrightarrow> n = 0 \<and> st = None"
    by (cases n) (simp_all add: stat_step_Some)
qed

lemma users_of_Cons:
  "users_of X sid (ppr # prs) =
     (if retained X ppr \<and> sid \<in> set (p_skills (snd ppr)) then ppr # users_of X sid prs
      else users_of X sid prs)"
  by (simp add: users_of_def)

lemma starts_of_Nil [simp]: "starts_of F [] = {}"
  by (simp add: starts_of_def)

lemma starts_of_Cons:
  "starts_of F (ppr # prs) = set_option (parse_date F (p_start (snd ppr))) \<union> starts_of F prs"
  by (auto simp: starts_of_def)

lemma finite_starts_of [simp]: "finite (starts_of F prs)"
  by (induction prs) (simp_all add: starts_of_Cons)

lemma ends_of_Nil [simp]: "ends_of F T [] = {}"
  by (simp add: ends_of_def)

lemma ends_of_Cons:
  "ends_of F T (ppr # prs) = insert (or_today T (parse_date F (p_end (snd ppr)))) (ends_of F T prs)"
  by (simp add: ends_of_def)

lemma finite_ends_of [simp]: "finite (ends_of F T prs)"
  by (simp add: ends_of_def)

lemma fold_stats_months:
  "months_of (snd (fold (project_step F T L R X) prs state) sid) =
     months_of (snd state sid) +
       (\<Sum>ppr\<leftarrow>filter (retained X) prs.
          int (count_list (p_skills (snd ppr)) sid) * pr_months F T (snd ppr))"
proof (induction prs arbitrary: state)
  case Nil
  then show ?case by simp
next
  case (Cons ppr prs)
  show ?case
    using Cons [of "project_step F T L R X ppr state"]
    by (simp add: project_step_stats funpow_stat_step(1))
qed

lemma fold_stats_first:
  "first_of (snd (fold (project_step F T L R X) prs state) sid) =
     min_of (set_option (first_of (snd state sid)) \<union> starts_of F (users_of X sid prs))"
proof (induction prs arbitrary: state)
  case Nil
  then show ?case by (simp add: users_of_def)
next
  case (Cons ppr prs)
  let ?s = "project_step F T L R X ppr state"
  have IH: "first_of (snd (fold (project_step F T L R X) prs ?s) sid) =
     min_of (set_option (first_of (snd ?s sid)) \<union> starts_of F (users_of X sid prs))"
    by (rule Cons)
  show ?case
  proof (cases "retained X ppr \<and> sid \<in> set (p_skills (snd ppr))")
    case True
    then have n: "count_list (p_skills (snd ppr)) sid \<noteq> 0"
      by (simp add: count_list_0_iff)
    have "first_of (snd ?s sid) =
        min_of (set_option (first_of (snd state sid)) \<union> set_option (parse_date F (p_start (snd ppr))))"
      using True n by (simp add: project_step_stats funpow_stat_step(2))
    then have "first_of (snd (fold (project_step F T L R X) prs ?s) sid) =
        min_of ((set_option (first_of (snd state sid)) \<union> set_option (parse_date F (p_start (snd ppr))))
                 \<union> starts_of F (users_of X sid prs))"
      using IH by (simp add: min_of_absorb)
    then show ?thesis using True by (simp add: users_of_Cons starts_of_Cons Un_assoc)
  next
    case False
    then have "snd ?s sid = snd state sid"
      by (auto simp: project_step_stats count_list_0_iff)
    then show ?thesis using IH False by (auto simp: users_of_Cons)
  qed
qed

lemma fold_stats_last:
  "last_of (snd (fold (project_step F T L R X) prs state) sid) =
     max_of (set_option (last_of (snd state sid)) \<union> ends_of F T (users_of X sid prs))"
proof (induction prs arbitrary: state)
  case Nil
  then show ?case by (simp add: users_of_def)
next
  case (Cons ppr prs)
  let ?s = "project_step F T L R X ppr state"
  have IH: "last_of (snd (fold (project_step F T L R X) prs ?s) sid) =
     max_of (set_option (last_of (snd ?s sid)) \<union> ends_of F T (users_of X sid prs))"
    by (rule Cons)
  show ?case
  proof (cases "retained X ppr \<and> sid \<in> set (p_skills (snd ppr))")
    case True
    then have n: "count_list (p_skills (snd ppr)) sid \<noteq> 0"
      by (simp add: count_list_0_iff)
    have "last_of (snd ?s sid) =
        max_of (set_option (last_of (snd state sid)) \<union> {or_today T (parse_date F (p_end (snd ppr)))})"
      using True n by (simp add: project_step_stats funpow_stat_step(3))
    then have "last_of (snd (fold (project_step F T L R X) prs ?s) sid) =
        max_of ((set_option (last_of (snd state sid)) \<union> {or_today T (parse_date F (p_end (snd ppr)))})
                 \<union> ends_of F T (users_of X sid prs))"
      using IH by (simp add: max_of_absorb)
    then show ?thesis using True by (simp add: users_of_Cons ends_of_Cons Un_assoc)
  next
    case False
    then have "snd ?s sid = snd state sid"
      by (auto simp: project_step_stats count_list_0_iff)
    then show ?thesis using IH False by (auto simp: users_of_Cons)
  qed
qed

lemma fold_stats_None:
  "snd (fold (project_step F T L R X) prs state) sid = None \<longleftrightarrow>
     snd state sid = None \<and> users_of X sid prs = []"
proof (induction prs arbitrary: state)
  case Nil
  then show ?case by (simp add: users_of_def)
next
  case (Cons ppr prs)
  show ?case
    using Cons [of "project_step F T L R X ppr state"]
    by (auto simp: project_step_stats funpow_stat_step(4) users_of_Cons count_list_0_iff)
qed

lemma stat_None [simp]: "months_of None = 0" "first_of None = None" "last_of None = None"
  by (simp_all add: months_of_def first_of_def last_of_def)

text \<open>The annotation of a skill after the loop, from the empty table.\<close>

lemma annotate_after_loop:
  assumes "si_id it = sid"
  shows "su_months (annotate (snd (projects_loop F T L R X prs)) it) =
           (\<Sum>ppr\<leftarrow>filter (retained X) prs.
              int (count_list (p_skills (snd ppr)) sid) * pr_months F T (snd ppr))"
    and "su_first_used (annotate (snd (projects_loop F T L R X prs)) it) =
           map_option fmt_ym (min_of (starts_of F (users_of X sid prs)))"
    and "su_last_used (annotate (snd (projects_loop F T L R X prs)) it) =
           map_option fmt_ym (max_of (ends_of F T (users_of X sid prs)))"
    and "su_years_tenths (annotate (snd (projects_loop F T L R X prs)) it) =
           years_tenths (su_months (annotate (snd (projects_loop F T L R X prs)) it))"
proof -
  let ?st = "snd (projects_loop F T L R X prs) sid"
  have m: "months_of ?st = (\<Sum>ppr\<leftarrow>filter (retained X) prs.
              int (count_list (p_skills (snd ppr)) sid) * pr_months F T (snd ppr))"
    unfolding projects_loop_def by (simp add: fold_stats_months)
  have f: "first_of ?st = min_of (starts_of F (users_of X sid prs))"
    unfolding projects_loop_def by (simp add: fold_stats_first)
  have l: "last_of ?st = max_of (ends_of F T (users_of X sid prs))"
    unfolding projects_loop_def by (simp add: fold_stats_last)
  show "su_months (annotate (snd (projects_loop F T L R X prs)) it) =
           (\<Sum>ppr\<leftarrow>filter (retained X) prs.
              int (count_list (p_skills (snd ppr)) sid) * pr_months F T (snd ppr))"
    using m assms by (simp add: annotate_def Let_def months_of_def)
  show "su_first_used (annotate (snd (projects_loop F T L R X prs)) it) =
           map_option fmt_ym (min_of (starts_of F (users_of X sid prs)))"
    using f assms by (simp add: annotate_def Let_def first_of_def split: option.splits)
  show "su_last_used (annotate (snd (projects_loop F T L R X prs)) it) =
           map_option fmt_ym (max_of (ends_of F T (users_of X sid prs)))"
    using l assms by (simp add: annotate_def Let_def last_of_def split: option.splits)
  show "su_years_tenths (annotate (snd (projects_loop F T L R X prs)) it) =
           years_tenths (su_months (annotate (snd (projects_loop F T L R X prs)) it))"
    by (simp add: annotate_def Let_def)
qed

subsection \<open>Entries of projects\<close>

lemma mk_date_valid: "mk_date y m d = Some x \<Longrightarrow> valid_date x"
  by (auto simp: mk_date_def split: if_splits)

lemma parse_date_valid:
  assumes "valid_fromisoformat F" and "parse_date F v = Some d"
  shows "valid_date d"
proof -
  have iso: "valid_date d" if "F s = Some d" for s
  proof -
    from assms(1) have "case F s of None \<Rightarrow> True | Some d \<Rightarrow> valid_date d"
      unfolding valid_fromisoformat_def by (rule spec)
    with that show ?thesis by simp
  qed
  from assms(2) show ?thesis
    by (auto simp: parse_date_def Let_def split: option.splits if_splits
        dest: mk_date_valid iso)
qed

lemma parse_date_None [simp]: "parse_date F None = None"
  by (simp add: parse_date_def)

lemma py_strip_Nil [simp]: "py_strip [] = []"
  by (simp add: py_strip_def)

lemma parse_date_empty [simp]: "parse_date F (Some []) = None"
  by (simp add: parse_date_def)

lemma lower_literals:
  "py_lower ''now'' = ''now''" "py_lower ''present'' = ''present''"
  "py_lower ''current'' = ''current''" "py_lower ''ongoing'' = ''ongoing''"
  by (simp_all add: py_lower_def py_lower_char_def)

lemma strip_literals:
  "py_strip ''now'' = ''now''" "py_strip ''present'' = ''present''"
  "py_strip ''current'' = ''current''" "py_strip ''ongoing'' = ''ongoing''"
  by (simp_all add: py_strip_def py_isspace_def)

lemma parse_date_sentinel [simp]:
  "parse_date F (Some ''now'') = None" "parse_date F (Some ''present'') = None"
  "parse_date F (Some ''current'') = None" "parse_date F (Some ''ongoing'') = None"
  by (simp_all add: parse_date_def lower_literals strip_literals)

lemma fmt_ym_nonempty: "fmt_ym d \<noteq> []"
  by (simp add: fmt_ym_def)

lemma valid_month_start: "valid_date d \<Longrightarrow> valid_date (month_start d)"
  by (simp add: valid_date_def month_start_def year_def month_def day_def days_in_month_def)

lemma month_start_idem [simp]: "month_start (month_start d) = month_start d"
  by (simp add: month_start_def year_def month_def)

lemma fmt_ym_month_start [simp]: "fmt_ym (month_start d) = fmt_ym d"
  by (simp add: fmt_ym_def month_start_def year_def month_def)

lemma parse_fmt_ym': "valid_date d \<Longrightarrow> parse_date F (Some (fmt_ym d)) = Some (month_start d)"
  by (simp add: parse_fmt_ym month_start_def)

text \<open>What an entry stores of the start and the end of its project.\<close>

lemma entry_end:
  "pe_end (project_entry_of F T L R pr) = map_option fmt_ym (parse_date F (p_end pr))"
proof (cases "parse_date F (p_end pr)")
  case None
  then show ?thesis by (simp add: project_entry_of_def Let_def)
next
  case (Some d)
  then have "p_end pr \<notin> {None, Some [], Some ''now'', Some ''present'', Some ''current'',
                                 Some ''ongoing''}"
    by (cases "p_end pr") auto
  with Some show ?thesis by (simp add: project_entry_of_def Let_def)
qed

lemma entry_start:
  "pe_start (project_entry_of F T L R pr) = map_option fmt_ym (parse_date F (p_start pr))"
  by (simp add: project_entry_of_def Let_def)

lemma entry_duration:
  "pe_duration_months (project_entry_of F T L R pr) =
     months_between (parse_date F (p_start pr)) (Some (or_today T (parse_date F (p_end pr))))"
  by (simp add: project_entry_of_def Let_def)

lemma months_between_nonneg: "months_between a b = Some n \<Longrightarrow> 0 \<le> n"
  by (auto simp: months_between_def Let_def split: option.splits)

lemma parse_stored:
  assumes "valid_fromisoformat F"
  shows "parse_date F (map_option fmt_ym (parse_date F v)) = map_option month_start (parse_date F v)"
proof (cases "parse_date F v")
  case None
  then show ?thesis by simp
next
  case (Some d)
  then have "valid_date d" using assms by (auto dest: parse_date_valid)
  with Some show ?thesis by (simp add: parse_fmt_ym')
qed

lemma stored_truthy:
  "str_truthy (map_option fmt_ym x) \<longleftrightarrow> x \<noteq> None"
  by (cases x) (simp_all add: str_truthy_def fmt_ym_nonempty)

lemma stored_absent:
  "map_option fmt_ym x \<in> {None, Some []} \<longleftrightarrow> x = None"
  by (cases x) (simp_all add: fmt_ym_nonempty)

subsection \<open>Entries of employers\<close>

lemma concrete_map_Some [simp]: "concrete (map (\<lambda>x. Some (f x)) xs) = map f xs"
  by (induction xs) simp_all

lemma set_concrete: "set (concrete ds) = {d. Some d \<in> set ds}"
  by (induction ds rule: concrete.induct) auto

lemma fold_min_in: "fold min xs (x :: 'a :: linorder) \<in> set (x # xs)"
  by (induction xs arbitrary: x) (auto simp: min_def)

lemma fold_max_in: "fold max xs (x :: 'a :: linorder) \<in> set (x # xs)"
  by (induction xs arbitrary: x) (auto simp: max_def)

lemma list_min_in: "list_min xs = Some m \<Longrightarrow> m \<in> set xs"
  using fold_min_in by (cases xs) auto

lemma list_max_in: "list_max xs = Some m \<Longrightarrow> m \<in> set xs"
  using fold_max_in by (cases xs) auto

lemma list_min_None [simp]: "list_min xs = None \<longleftrightarrow> xs = []"
  by (cases xs) simp_all

lemma list_max_None [simp]: "list_max xs = None \<longleftrightarrow> xs = []"
  by (cases xs) simp_all

lemma stored_dates:
  assumes "valid_fromisoformat F"
  shows "map (\<lambda>p. parse_date F (pe_start p))
           (filter (\<lambda>p. str_truthy (pe_start p)) (map (\<lambda>ppr. project_entry_of F T L R (snd ppr)) prs))
         = map (\<lambda>d. Some (month_start d)) (concrete (map (\<lambda>ppr. parse_date F (p_start (snd ppr))) prs))"
    and "map (\<lambda>p. parse_date F (pe_end p))
           (filter (\<lambda>p. str_truthy (pe_end p)) (map (\<lambda>ppr. project_entry_of F T L R (snd ppr)) prs))
         = map (\<lambda>d. Some (month_start d)) (concrete (map (\<lambda>ppr. parse_date F (p_end (snd ppr))) prs))"
proof -
  show "map (\<lambda>p. parse_date F (pe_start p))
           (filter (\<lambda>p. str_truthy (pe_start p)) (map (\<lambda>ppr. project_entry_of F T L R (snd ppr)) prs))
         = map (\<lambda>d. Some (month_start d)) (concrete (map (\<lambda>ppr. parse_date F (p_start (snd ppr))) prs))"
  proof (induction prs)
    case Nil
    then show ?case by simp
  next
    case (Cons ppr prs)
    show ?case
      using Cons parse_stored [OF assms, of "p_start (snd ppr)"]
      by (cases "parse_date F (p_start (snd ppr))")
         (simp_all add: entry_start str_truthy_def fmt_ym_nonempty)
  qed
  show "map (\<lambda>p. parse_date F (pe_end p))
           (filter (\<lambda>p. str_truthy (pe_end p)) (map (\<lambda>ppr. project_entry_of F T L R (snd ppr)) prs))
         = map (\<lambda>d. Some (month_start d)) (concrete (map (\<lambda>ppr. parse_date F (p_end (snd ppr))) prs))"
  proof (induction prs)
    case Nil
    then show ?case by simp
  next
    case (Cons ppr prs)
    show ?case
      using Cons parse_stored [OF assms, of "p_end (snd ppr)"]
      by (cases "parse_date F (p_end (snd ppr))")
         (simp_all add: entry_end str_truthy_def fmt_ym_nonempty)
  qed
qed

lemma any_ongoing_iff:
  "(\<exists>p \<in> set (map (\<lambda>ppr. project_entry_of F T L R (snd ppr)) prs). pe_end p \<in> {None, Some []})
     \<longleftrightarrow> (\<exists>ppr \<in> set prs. parse_date F (p_end (snd ppr)) = None)"
  using stored_absent by (auto simp: entry_end simp del: insert_iff)

lemma employer_entry_none:
  "entries_for by_employer ekey = [] \<Longrightarrow>
     employer_entry F T L by_employer ekey emp = Inr None"
  by (simp add: employer_entry_def entries_for_def)

lemma employer_entry_some:
  assumes v: "valid_fromisoformat F"
    and e: "entries_for by_employer ekey = map (\<lambda>ppr. project_entry_of F T L R (snd ppr)) prs"
    and ne: "prs \<noteq> []"
  shows "employer_entry F T L by_employer ekey emp =
     (let emp_start = list_min (map month_start
                         (concrete (map (\<lambda>ppr. parse_date F (p_start (snd ppr))) prs)));
          emp_end = (if \<exists>ppr \<in> set prs. parse_date F (p_end (snd ppr)) = None then None
                     else list_max (map month_start
                            (concrete (map (\<lambda>ppr. parse_date F (p_end (snd ppr))) prs))))
      in Inr (Some \<lparr> x_employer = tr L (emp_name emp),
                       x_start = map_option fmt_ym emp_start,
                       x_end = map_option fmt_ym emp_end,
                       x_duration_months = months_between emp_start (Some (or_today T emp_end)),
                       x_projects = map (\<lambda>ppr. project_entry_of F T L R (snd ppr)) prs \<rparr>))"
proof -
  let ?E = "map (\<lambda>ppr. project_entry_of F T L R (snd ppr)) prs"
  have p: "(case by_employer ekey of None \<Rightarrow> [] | Some es \<Rightarrow> es) = ?E"
    using e by (simp add: entries_for_def)
  have n: "?E \<noteq> []" using ne by simp
  note sd = stored_dates [OF v, of T L R prs]
  show ?thesis
    unfolding employer_entry_def p Let_def sd any_ongoing_iff
    using n by (auto simp del: insert_iff)
qed

subsection \<open>The experience list\<close>

lemma loop_entries:
  "entries_for (fst (projects_loop F T L R X prs)) k =
     map (\<lambda>ppr. project_entry_of F T L R (snd ppr))
       (filter (\<lambda>ppr. retained X ppr \<and> refers k ppr) prs)"
  unfolding projects_loop_def fold_entries by (simp add: entries_for_def)

lemma employer_entry_after_loop:
  assumes "valid_fromisoformat F"
  shows "\<exists>r. employer_entry F T L (fst (projects_loop F T L R X prs)) k emp = Inr r \<and>
             (r = None \<longleftrightarrow> filter (\<lambda>ppr. retained X ppr \<and> refers k ppr) prs = []) \<and>
             (\<forall>x. r = Some x \<longrightarrow>
                x_projects x = map (\<lambda>ppr. project_entry_of F T L R (snd ppr))
                                 (filter (\<lambda>ppr. retained X ppr \<and> refers k ppr) prs))"
proof (cases "filter (\<lambda>ppr. retained X ppr \<and> refers k ppr) prs = []")
  case True
  then have "entries_for (fst (projects_loop F T L R X prs)) k = []"
    by (simp add: loop_entries)
  then have "employer_entry F T L (fst (projects_loop F T L R X prs)) k emp = Inr None"
    by (rule employer_entry_none)
  with True show ?thesis by simp
next
  case False
  note some = employer_entry_some [OF assms loop_entries False]
  show ?thesis
    unfolding some Let_def using False by simp
qed

lemma entry_option_after_loop:
  assumes "valid_fromisoformat F"
  shows "employer_entry F T L (fst (projects_loop F T L R X prs)) k emp =
           Inr (entry_option F T L (fst (projects_loop F T L R X prs)) (k, emp))"
  using employer_entry_after_loop [OF assms, of T L R X prs k emp]
  by (auto simp: entry_option_def)

lemma experience_loop_ok:
  assumes "\<And>k emp. employer_entry F T L by_employer k emp =
             Inr (entry_option F T L by_employer (k, emp))"
  shows "experience_loop F T L by_employer emps =
           Inr (concrete (map (entry_option F T L by_employer) emps))"
proof (induction emps)
  case Nil
  then show ?case by simp
next
  case (Cons kemp emps)
  obtain k emp where kemp: "kemp = (k, emp)" by (cases kemp)
  show ?case
    using Cons assms [of k emp]
    by (cases "entry_option F T L by_employer (k, emp)") (simp_all add: kemp)
qed

lemma expand_intermediate_ok:
  assumes "valid_fromisoformat F"
  shows "expand_intermediate F T language X raw =
     Inr \<lparr> i_lang = resolve_lang language,
           i_skills = map (skill_group_of (resolve_lang language) (raw_registry raw)
                             (snd (projects_loop F T (resolve_lang language) (raw_registry raw) X
                                     (raw_projects raw))))
                        (raw_groups raw),
           i_experience = sort_key (sort_key_of F T) (unsorted_experience F T language X raw),
           i_metrics = metrics_of F T
                         (sort_key (sort_key_of F T) (unsorted_experience F T language X raw)) \<rparr>"
proof -
  let ?L = "resolve_lang language"
  let ?by = "fst (projects_loop F T ?L (raw_registry raw) X (raw_projects raw))"
  have "experience_loop F T ?L ?by (raw_employers raw) =
          Inr (concrete (map (entry_option F T ?L ?by) (raw_employers raw)))"
    by (rule experience_loop_ok) (rule entry_option_after_loop [OF assms])
  then show ?thesis
    by (simp add: expand_intermediate_def Let_def unsorted_experience_def)
qed

lemma expand_intermediate_filter:
  "expand_intermediate F T language X (raw\<lparr>raw_projects := filter (retained X) (raw_projects raw)\<rparr>) =
   expand_intermediate F T language X raw"
proof -
  have "projects_loop F T L R X (filter (retained X) prs) = projects_loop F T L R X prs" for L R prs
    unfolding projects_loop_def by (rule fold_project_step_filter [symmetric])
  then show ?thesis
    by (simp add: expand_intermediate_def Let_def split: sum.splits)
qed

lemma set_unsorted_experience:
  "set (unsorted_experience F T language X raw) =
     {x. \<exists>kemp \<in> set (raw_employers raw).
           entry_option F T (resolve_lang language)
             (fst (projects_loop F T (resolve_lang language) (raw_registry raw) X (raw_projects raw)))
             kemp = Some x}"
  by (force simp: unsorted_experience_def set_concrete image_iff)

subsection \<open>Counting the projects\<close>

lemma fold_metrics_total:
  "snd (snd (fold (metrics_step F T) ps acc)) = snd (snd acc) + length ps"
  by (induction ps arbitrary: acc) (simp_all add: metrics_step_def Let_def)

lemma projects_total_sum:
  "projects_total (metrics_of F T xs) = (\<Sum>x\<leftarrow>xs. length (x_projects x))"
  by (simp add: metrics_of_def Let_def fold_metrics_total length_concat comp_def)

lemma sum_list_sort_key:
  "(\<Sum>x\<leftarrow>sort_key f xs. (g x :: nat)) = (\<Sum>x\<leftarrow>xs. g x)"
proof -
  have "mset (map g (sort_key f xs)) = mset (map g xs)"
    by simp
  then show ?thesis
    by (metis sum_mset_sum_list)
qed

lemma sum_concrete:
  "(\<Sum>x\<leftarrow>concrete ds. (g x :: nat)) = (\<Sum>d\<leftarrow>ds. case d of None \<Rightarrow> 0 | Some x \<Rightarrow> g x)"
  by (induction ds rule: concrete.induct) simp_all

lemma length_concrete:
  "length (concrete ds) = length (filter (\<lambda>d. d \<noteq> None) ds)"
  by (induction ds rule: concrete.induct) simp_all

lemma entry_option_cases:
  assumes "valid_fromisoformat F"
  shows "(entry_option F T L (fst (projects_loop F T L R X prs)) kemp = None \<longleftrightarrow>
            filter (\<lambda>ppr. retained X ppr \<and> refers (fst kemp) ppr) prs = []) \<and>
         (\<forall>x. entry_option F T L (fst (projects_loop F T L R X prs)) kemp = Some x \<longrightarrow>
            x_projects x = map (\<lambda>ppr. project_entry_of F T L R (snd ppr))
                             (filter (\<lambda>ppr. retained X ppr \<and> refers (fst kemp) ppr) prs))"
  using employer_entry_after_loop [OF assms, of T L R X prs "fst kemp" "snd kemp"]
  by (auto simp: entry_option_def)

lemma filter_empty_iff_Bex: "filter P xs = [] \<longleftrightarrow> \<not> (\<exists>x \<in> set xs. P x)"
  by (simp add: filter_empty_conv)

text \<open>
  C1. The projects that are excluded by id, or that have no employer reference, can be
  removed from the raw document without any change to the result of
  \<open>expand_intermediate\<close>. When \<open>fromisoformat\<close> returns valid dates, the expansion
  succeeds; the experience is a permutation of the entries of the employers; an
  employer has an entry exactly when a retained project references its key, and the
  projects of that entry are the entries of exactly these projects; \<open>metrics.projects\<close>
  counts, employer by employer, the retained projects that reference the employer, and
  \<open>metrics.companies\<close> counts the employers with such a project.
\<close>

theorem excluded_projects_contribute_nothing:
  "expand_intermediate F T language X
       (raw\<lparr>raw_projects := filter (retained X) (raw_projects raw)\<rparr>) =
     expand_intermediate F T language X raw \<and>
   (valid_fromisoformat F \<longrightarrow>
     (\<exists>out. expand_intermediate F T language X raw = Inr out \<and>
        mset (i_experience out) = mset (unsorted_experience F T language X raw) \<and>
        projects_total (i_metrics out) =
          (\<Sum>kemp\<leftarrow>raw_employers raw.
             length (filter (\<lambda>ppr. retained X ppr \<and> refers (fst kemp) ppr) (raw_projects raw))) \<and>
        companies (i_metrics out) =
          length (filter (\<lambda>kemp. \<exists>ppr \<in> set (raw_projects raw).
                            retained X ppr \<and> refers (fst kemp) ppr) (raw_employers raw)) \<and>
        (\<forall>kemp \<in> set (raw_employers raw).
           case entry_option F T (resolve_lang language)
                  (fst (projects_loop F T (resolve_lang language) (raw_registry raw) X
                          (raw_projects raw))) kemp of
             None \<Rightarrow> \<not> (\<exists>ppr \<in> set (raw_projects raw). retained X ppr \<and> refers (fst kemp) ppr)
           | Some x \<Rightarrow>
               (\<exists>ppr \<in> set (raw_projects raw). retained X ppr \<and> refers (fst kemp) ppr) \<and>
               x \<in> set (i_experience out) \<and>
               x_projects x =
                 map (\<lambda>ppr. project_entry_of F T (resolve_lang language) (raw_registry raw) (snd ppr))
                   (filter (\<lambda>ppr. retained X ppr \<and> refers (fst kemp) ppr) (raw_projects raw)))))"
proof (intro conjI impI)
  show "expand_intermediate F T language X
       (raw\<lparr>raw_projects := filter (retained X) (raw_projects raw)\<rparr>) =
     expand_intermediate F T language X raw"
    by (rule expand_intermediate_filter)
next
  assume v: "valid_fromisoformat F"
  let ?L = "resolve_lang language"
  let ?R = "raw_registry raw"
  let ?prs = "raw_projects raw"
  let ?by = "fst (projects_loop F T ?L ?R X ?prs)"
  let ?U = "unsorted_experience F T language X raw"
  let ?S = "sort_key (sort_key_of F T) ?U"
  let ?n = "\<lambda>kemp. filter (\<lambda>ppr. retained X ppr \<and> refers (fst kemp) ppr) ?prs"
  define out where "out = \<lparr> i_lang = ?L,
           i_skills = map (skill_group_of ?L ?R (snd (projects_loop F T ?L ?R X ?prs))) (raw_groups raw),
           i_experience = ?S, i_metrics = metrics_of F T ?S \<rparr>"
  have ok: "expand_intermediate F T language X raw = Inr out"
    unfolding out_def by (rule expand_intermediate_ok [OF v])
  have ex: "i_experience out = ?S" and me: "i_metrics out = metrics_of F T ?S"
    by (simp_all add: out_def)
  note ec = entry_option_cases [OF v, of T ?L ?R X ?prs]
  have U: "?U = concrete (map (entry_option F T ?L ?by) (raw_employers raw))"
    by (simp add: unsorted_experience_def)
  have per: "(case entry_option F T ?L ?by kemp of None \<Rightarrow> 0 | Some x \<Rightarrow> length (x_projects x))
           = length (?n kemp)" for kemp
    using ec [of kemp] by (cases "entry_option F T ?L ?by kemp") auto
  have total: "projects_total (i_metrics out) = (\<Sum>kemp\<leftarrow>raw_employers raw. length (?n kemp))"
    unfolding me projects_total_sum sum_list_sort_key U sum_concrete
    by (simp add: comp_def per)
  have "companies (i_metrics out) = length ?U"
    by (simp add: me metrics_of_def Let_def)
  also have "\<dots> = length (filter (\<lambda>kemp. entry_option F T ?L ?by kemp \<noteq> None) (raw_employers raw))"
    unfolding U length_concrete by (simp add: filter_map comp_def)
  also have "\<dots> = length (filter (\<lambda>kemp. \<exists>ppr \<in> set ?prs. retained X ppr \<and> refers (fst kemp) ppr)
                            (raw_employers raw))"
    using ec by (simp add: filter_empty_iff_Bex)
  finally have comp: "companies (i_metrics out) =
      length (filter (\<lambda>kemp. \<exists>ppr \<in> set ?prs. retained X ppr \<and> refers (fst kemp) ppr)
                (raw_employers raw))" .
  have each: "case entry_option F T ?L ?by kemp of
             None \<Rightarrow> \<not> (\<exists>ppr \<in> set ?prs. retained X ppr \<and> refers (fst kemp) ppr)
           | Some x \<Rightarrow>
               (\<exists>ppr \<in> set ?prs. retained X ppr \<and> refers (fst kemp) ppr) \<and>
               x \<in> set (i_experience out) \<and>
               x_projects x = map (\<lambda>ppr. project_entry_of F T ?L ?R (snd ppr)) (?n kemp)"
    if "kemp \<in> set (raw_employers raw)" for kemp
  proof (cases "entry_option F T ?L ?by kemp")
    case None
    then show ?thesis using ec [of kemp] by (simp add: filter_empty_iff_Bex)
  next
    case (Some x)
    then have "?n kemp \<noteq> []" using ec [of kemp] by auto
    then have a: "\<exists>ppr \<in> set ?prs. retained X ppr \<and> refers (fst kemp) ppr"
      by (simp add: filter_empty_iff_Bex)
    have b: "x \<in> set (i_experience out)"
      using that Some by (auto simp: ex set_unsorted_experience)
    have c: "x_projects x = map (\<lambda>ppr. project_entry_of F T ?L ?R (snd ppr)) (?n kemp)"
      using ec [of kemp] Some by simp
    from a b c Some show ?thesis by simp
  qed
  show "\<exists>out. expand_intermediate F T language X raw = Inr out \<and>
        mset (i_experience out) = mset ?U \<and>
        projects_total (i_metrics out) = (\<Sum>kemp\<leftarrow>raw_employers raw. length (?n kemp)) \<and>
        companies (i_metrics out) =
          length (filter (\<lambda>kemp. \<exists>ppr \<in> set ?prs. retained X ppr \<and> refers (fst kemp) ppr)
                    (raw_employers raw)) \<and>
        (\<forall>kemp \<in> set (raw_employers raw).
           case entry_option F T ?L ?by kemp of
             None \<Rightarrow> \<not> (\<exists>ppr \<in> set ?prs. retained X ppr \<and> refers (fst kemp) ppr)
           | Some x \<Rightarrow>
               (\<exists>ppr \<in> set ?prs. retained X ppr \<and> refers (fst kemp) ppr) \<and>
               x \<in> set (i_experience out) \<and>
               x_projects x = map (\<lambda>ppr. project_entry_of F T ?L ?R (snd ppr)) (?n kemp))"
    using ok total comp each by (intro exI [of _ out]) (simp add: ex)
qed

end
